theory Spec2Isabelle
  imports Complex_Main
begin

section \<open>Challenge state machine (challenge/state\_machine.py)\<close>

text \<open>
  \<^verbatim>\<open>ChallengeState\<close> is a Python enumeration with ten members. Each member is a
  constructor here, in the order of the source.
\<close>

datatype ChallengeState =
    CREATED
  | SENT
  | ACCEPTED
  | DECLINED
  | FIGHT_TYPE_SELECTED
  | PARTICIPANTS_JOINING
  | FIGHT_ACTIVE
  | FIGHT_FINISHED
  | EXPIRED
  | CANCELLED

text \<open>
  A \<^verbatim>\<open>datetime\<close> is modelled as an integer count of microseconds (the
  resolution of Python's \<^verbatim>\<open>datetime\<close>). The clock reading
  \<^verbatim>\<open>datetime.utcnow()\<close> is an input of every operation that takes one.
\<close>

type_synonym datetime = int

text \<open>
  The class attribute \<^verbatim>\<open>VALID_TRANSITIONS\<close>: a dictionary from every state to
  the set of its allowed targets. Every member of the enumeration is a key, so the
  default of \<^verbatim>\<open>.get(self.current_state, set())\<close> is never used.
\<close>

fun VALID_TRANSITIONS :: "ChallengeState \<Rightarrow> ChallengeState set" where
  "VALID_TRANSITIONS CREATED = {SENT, CANCELLED}"
| "VALID_TRANSITIONS SENT = {ACCEPTED, DECLINED, EXPIRED, CANCELLED}"
| "VALID_TRANSITIONS ACCEPTED = {FIGHT_TYPE_SELECTED, CANCELLED}"
| "VALID_TRANSITIONS FIGHT_TYPE_SELECTED = {PARTICIPANTS_JOINING, CANCELLED}"
| "VALID_TRANSITIONS PARTICIPANTS_JOINING = {FIGHT_ACTIVE, EXPIRED, CANCELLED}"
| "VALID_TRANSITIONS FIGHT_ACTIVE = {FIGHT_FINISHED, CANCELLED}"
| "VALID_TRANSITIONS FIGHT_FINISHED = {}"
| "VALID_TRANSITIONS EXPIRED = {}"
| "VALID_TRANSITIONS DECLINED = {}"
| "VALID_TRANSITIONS CANCELLED = {}"

text \<open>
  An instance of \<^verbatim>\<open>ChallengeStateMachine\<close>: the current state and the history
  list of (state, time) pairs, oldest first.
\<close>

record ChallengeStateMachine =
  current_state :: ChallengeState
  state_history :: "(ChallengeState \<times> datetime) list"

text \<open>\<^verbatim>\<open>__init__(initial_state)\<close>, with the clock reading \<open>now\<close>.\<close>

definition init_machine :: "ChallengeState \<Rightarrow> datetime \<Rightarrow> ChallengeStateMachine" where
  "init_machine initial_state now =
     \<lparr>current_state = initial_state, state_history = [(initial_state, now)]\<rparr>"

definition can_transition_to :: "ChallengeStateMachine \<Rightarrow> ChallengeState \<Rightarrow> bool" where
  "can_transition_to m new_state \<longleftrightarrow> new_state \<in> VALID_TRANSITIONS (current_state m)"

text \<open>
  \<^verbatim>\<open>transition_to\<close> mutates the object and returns a boolean. The model returns
  the boolean together with the machine after the call. The two log calls have no
  effect on the object and are left out.
\<close>

definition transition_to ::
  "ChallengeStateMachine \<Rightarrow> ChallengeState \<Rightarrow> datetime \<Rightarrow> bool \<times> ChallengeStateMachine" where
  "transition_to m new_state now =
     (if \<not> can_transition_to m new_state then (False, m)
      else (True, m\<lparr>current_state := new_state,
                     state_history := state_history m @ [(new_state, now)]\<rparr>))"

definition is_terminal_state :: "ChallengeStateMachine \<Rightarrow> bool" where
  "is_terminal_state m \<longleftrightarrow> VALID_TRANSITIONS (current_state m) = {}"

definition get_current_state :: "ChallengeStateMachine \<Rightarrow> ChallengeState" where
  "get_current_state m = current_state m"

text \<open>
  Python's \<^verbatim>\<open>int(td.total_seconds())\<close> on a difference of \<open>d\<close> microseconds:
  the quotient by one million, truncated towards zero.
\<close>

definition int_total_seconds :: "int \<Rightarrow> int" where
  "int_total_seconds d = (if 0 \<le> d then d div 1000000 else - ((- d) div 1000000))"

definition get_time_in_state :: "ChallengeStateMachine \<Rightarrow> datetime \<Rightarrow> int" where
  "get_time_in_state m now =
     (case state_history m of
        [] \<Rightarrow> 0
      | _ # _ \<Rightarrow> int_total_seconds (now - snd (last (state_history m))))"

section \<open>Python numbers\<close>

text \<open>
  A Python float is an IEEE 754 binary64 value: a finite value, given here by the
  rational that it denotes, an infinity, or NaN. The sign of a zero is not kept: no
  operation of the program tells the two zeros apart.
\<close>

datatype pyfloat = Finite rat | PosInf | NegInf | NaN

text \<open>The integer nearest to a rational; a tie goes to the even one.\<close>

definition round_half_even :: "rat \<Rightarrow> int" where
  "round_half_even x =
     (let f = \<lfloor>x\<rfloor>; r = x - of_int f
      in if r < 1 / 2 then f
         else if 1 / 2 < r then f + 1
         else if even f then f else f + 1)"

text \<open>
  The doubles around a magnitude a are the multiples of 2 to the power e, for the least
  e from -1074 (the spacing of the subnormal numbers) with a below 2 to the power
  e + 53, and e at most 971 (the spacing of the largest doubles). The search counts e
  up from -1074, in at most 2045 steps.
\<close>

fun quantum_exponent :: "nat \<Rightarrow> rat \<Rightarrow> int \<Rightarrow> int" where
  "quantum_exponent 0 a e = e"
| "quantum_exponent (Suc n) a e =
     (if a < 2 powi (e + 53) then e else quantum_exponent n a (e + 1))"

text \<open>
  Rounding to the nearest double, ties to even: the result of every arithmetic
  operation on floats. A magnitude that rounds to 2 to the power 1024 overflows to an
  infinity.
\<close>

definition round_double :: "rat \<Rightarrow> pyfloat" where
  "round_double x =
     (let a = \<bar>x\<bar>;
          e = quantum_exponent 2045 a (- 1074);
          y = of_int (round_half_even (a / 2 powi e)) * 2 powi e
      in if 2 powi 1024 \<le> y then (if 0 < x then PosInf else NegInf)
         else Finite (if 0 \<le> x then y else - y))"

text \<open>The operations of floats, with the special values as IEEE 754 has them.\<close>

definition inf_of_sign :: "bool \<Rightarrow> pyfloat" where
  "inf_of_sign positive = (if positive then PosInf else NegInf)"

fun fl_neg :: "pyfloat \<Rightarrow> pyfloat" where
  "fl_neg (Finite a) = Finite (- a)"
| "fl_neg PosInf = NegInf"
| "fl_neg NegInf = PosInf"
| "fl_neg NaN = NaN"

fun fl_abs :: "pyfloat \<Rightarrow> pyfloat" where
  "fl_abs (Finite a) = Finite \<bar>a\<bar>"
| "fl_abs PosInf = PosInf"
| "fl_abs NegInf = PosInf"
| "fl_abs NaN = NaN"

fun fl_add :: "pyfloat \<Rightarrow> pyfloat \<Rightarrow> pyfloat" where
  "fl_add (Finite a) (Finite b) = round_double (a + b)"
| "fl_add NaN y = NaN"
| "fl_add x NaN = NaN"
| "fl_add PosInf NegInf = NaN"
| "fl_add NegInf PosInf = NaN"
| "fl_add PosInf y = PosInf"
| "fl_add NegInf y = NegInf"
| "fl_add x PosInf = PosInf"
| "fl_add x NegInf = NegInf"

definition fl_sub :: "pyfloat \<Rightarrow> pyfloat \<Rightarrow> pyfloat" where
  "fl_sub x y = fl_add x (fl_neg y)"

fun fl_mul :: "pyfloat \<Rightarrow> pyfloat \<Rightarrow> pyfloat" where
  "fl_mul (Finite a) (Finite b) = round_double (a * b)"
| "fl_mul NaN y = NaN"
| "fl_mul x NaN = NaN"
| "fl_mul (Finite a) y = (if a = 0 then NaN else inf_of_sign ((0 < a) = (y = PosInf)))"
| "fl_mul x (Finite b) = (if b = 0 then NaN else inf_of_sign ((0 < b) = (x = PosInf)))"
| "fl_mul x y = inf_of_sign (x = y)"

text \<open>Division by a divisor that is not zero; Python raises on a zero divisor.\<close>

fun fl_div :: "pyfloat \<Rightarrow> pyfloat \<Rightarrow> pyfloat" where
  "fl_div (Finite a) (Finite b) = round_double (a / b)"
| "fl_div NaN y = NaN"
| "fl_div x NaN = NaN"
| "fl_div (Finite a) y = Finite 0"
| "fl_div x (Finite b) = inf_of_sign ((0 < b) = (x = PosInf))"
| "fl_div x y = NaN"

text \<open>The order of floats: every comparison with NaN is false.\<close>

fun fl_lt :: "pyfloat \<Rightarrow> pyfloat \<Rightarrow> bool" where
  "fl_lt (Finite a) (Finite b) = (a < b)"
| "fl_lt NaN y = False"
| "fl_lt x NaN = False"
| "fl_lt x PosInf = (x \<noteq> PosInf)"
| "fl_lt NegInf y = (y \<noteq> NegInf)"
| "fl_lt x y = False"

section \<open>Metric values and Python exceptions\<close>

text \<open>
  A metrics bag is a Python \<^verbatim>\<open>Dict[str, Any]\<close>. A value in it is an integer
  (unbounded), a float, or a value that is not a number, for which \<^verbatim>\<open>None\<close>
  stands: arithmetic and ordering comparisons on \<^verbatim>\<open>None\<close> raise
  \<^verbatim>\<open>TypeError\<close>.
\<close>

datatype pyval = PyInt int | PyFloat pyfloat | NoneVal

datatype exn = TypeError | AttributeError | OverflowError | ZeroDivisionError | ValidationError

type_synonym metrics = "string \<rightharpoonup> pyval"

text \<open>\<^verbatim>\<open>d.get(key, default)\<close>.\<close>

definition dict_get :: "metrics \<Rightarrow> string \<Rightarrow> pyval \<Rightarrow> pyval" where
  "dict_get d key dflt = (case d key of None \<Rightarrow> dflt | Some v \<Rightarrow> v)"

text \<open>
  A statement sequence inside \<^verbatim>\<open>try\<close>: the first exception ends it.
\<close>

definition try_bind :: "exn + 'a \<Rightarrow> ('a \<Rightarrow> exn + 'b) \<Rightarrow> exn + 'b" where
  "try_bind x f = (case x of Inl e \<Rightarrow> Inl e | Inr v \<Rightarrow> f v)"

text \<open>
  An ordering comparison of two numbers compares the values that they denote, also
  between an integer and a float; no conversion takes place.
\<close>

fun exact_value :: "pyval \<Rightarrow> exn + pyfloat" where
  "exact_value (PyInt i) = Inr (Finite (of_int i))"
| "exact_value (PyFloat f) = Inr f"
| "exact_value NoneVal = Inl TypeError"

definition py_lt :: "pyval \<Rightarrow> pyval \<Rightarrow> exn + bool" where
  "py_lt x y = try_bind (exact_value x) (\<lambda>a. try_bind (exact_value y) (\<lambda>b. Inr (fl_lt a b)))"

definition py_gt :: "pyval \<Rightarrow> pyval \<Rightarrow> exn + bool" where
  "py_gt x y = try_bind (exact_value x) (\<lambda>a. try_bind (exact_value y) (\<lambda>b. Inr (fl_lt b a)))"

text \<open>
  The conversion of an integer operand to a float, when the other operand is a float:
  the nearest double, or \<^verbatim>\<open>OverflowError\<close> beyond the largest one.
\<close>

definition float_of_int :: "int \<Rightarrow> exn + pyfloat" where
  "float_of_int i =
     (case round_double (of_int i) of Finite a \<Rightarrow> Inr (Finite a) | _ \<Rightarrow> Inl OverflowError)"

fun as_float :: "pyval \<Rightarrow> exn + pyfloat" where
  "as_float (PyInt i) = float_of_int i"
| "as_float (PyFloat f) = Inr f"
| "as_float NoneVal = Inl TypeError"

definition float_op ::
  "(pyfloat \<Rightarrow> pyfloat \<Rightarrow> pyfloat) \<Rightarrow> pyval \<Rightarrow> pyval \<Rightarrow> exn + pyval" where
  "float_op f x y =
     try_bind (as_float x) (\<lambda>a. try_bind (as_float y) (\<lambda>b. Inr (PyFloat (f a b))))"

text \<open>
  The arithmetic operators. On two integers \<^verbatim>\<open>+\<close>, \<^verbatim>\<open>-\<close> and \<^verbatim>\<open>*\<close> are exact;
  with a float operand the operation is that of floats. True division always gives a
  float: of two integers the correctly rounded quotient, or \<^verbatim>\<open>OverflowError\<close>.
\<close>

fun py_add :: "pyval \<Rightarrow> pyval \<Rightarrow> exn + pyval" where
  "py_add (PyInt a) (PyInt b) = Inr (PyInt (a + b))"
| "py_add NoneVal y = Inl TypeError"
| "py_add x NoneVal = Inl TypeError"
| "py_add x y = float_op fl_add x y"

fun py_sub :: "pyval \<Rightarrow> pyval \<Rightarrow> exn + pyval" where
  "py_sub (PyInt a) (PyInt b) = Inr (PyInt (a - b))"
| "py_sub NoneVal y = Inl TypeError"
| "py_sub x NoneVal = Inl TypeError"
| "py_sub x y = float_op fl_sub x y"

fun py_mul :: "pyval \<Rightarrow> pyval \<Rightarrow> exn + pyval" where
  "py_mul (PyInt a) (PyInt b) = Inr (PyInt (a * b))"
| "py_mul NoneVal y = Inl TypeError"
| "py_mul x NoneVal = Inl TypeError"
| "py_mul x y = float_op fl_mul x y"

fun py_truediv :: "pyval \<Rightarrow> pyval \<Rightarrow> exn + pyval" where
  "py_truediv (PyInt a) (PyInt b) =
     (if b = 0 then Inl ZeroDivisionError
      else case round_double (of_int a / of_int b) of
             Finite q \<Rightarrow> Inr (PyFloat (Finite q))
           | _ \<Rightarrow> Inl OverflowError)"
| "py_truediv NoneVal y = Inl TypeError"
| "py_truediv x NoneVal = Inl TypeError"
| "py_truediv x y =
     try_bind (as_float x) (\<lambda>a. try_bind (as_float y) (\<lambda>b.
       if b = Finite 0 then Inl ZeroDivisionError else Inr (PyFloat (fl_div a b))))"

fun py_abs :: "pyval \<Rightarrow> exn + pyval" where
  "py_abs (PyInt a) = Inr (PyInt \<bar>a\<bar>)"
| "py_abs (PyFloat f) = Inr (PyFloat (fl_abs f))"
| "py_abs NoneVal = Inl TypeError"

section \<open>Enumerations of database/models.py\<close>

datatype FightType = TIMING | VOLUME

text \<open>
  \<^verbatim>\<open>FightResult.CANCELLED\<close> is written \<open>CANCELLED_RESULT\<close>: the name \<open>CANCELLED\<close> is
  the state of the state machine.
\<close>

datatype FightResult = WIN | LOSS | DRAW | NO_SHOW | CANCELLED_RESULT

section \<open>Winner detection (ai/winner\_detector.py)\<close>

text \<open>
  The configuration object comes from a module that is not among the sources. Its
  attributes that the code reads are the fields of this record, and every function that
  reads one takes the record as a parameter. Times are whole seconds. The threshold is
  a finite number; only comparisons read it, so it is given by the value it denotes.
\<close>

record config =
  challenge_timeout :: int
  max_fight_duration :: int
  monitoring_interval :: int
  volume_threshold :: rat

text \<open>
  The result of a determination: the winner's participant number (1 or 2, or
  \<^verbatim>\<open>None\<close>) and the two results.
\<close>

type_synonym outcome = "int option \<times> FightResult \<times> FightResult"

text \<open>The body of the \<^verbatim>\<open>try\<close> of \<^verbatim>\<open>_analyze_timing_fight\<close>.\<close>

definition analyze_timing_fight_try :: "metrics \<Rightarrow> metrics \<Rightarrow> exn + outcome" where
  "analyze_timing_fight_try p1_metrics p2_metrics =
     (let p1_join_time = dict_get p1_metrics ''total_join_time'' (PyInt 0);
          p2_join_time = dict_get p2_metrics ''total_join_time'' (PyInt 0)
      in try_bind (py_sub p1_join_time p2_join_time) (\<lambda>d.
         try_bind (py_abs d) (\<lambda>time_difference.
         try_bind (py_lt time_difference (PyInt 5)) (\<lambda>close.
           if close then Inr (None, DRAW, DRAW)
           else try_bind (py_gt p1_join_time p2_join_time) (\<lambda>p1_longer.
             if p1_longer then Inr (Some 1, WIN, LOSS)
             else Inr (Some 2, LOSS, WIN))))))"

definition analyze_timing_fight :: "metrics \<Rightarrow> metrics \<Rightarrow> outcome" where
  "analyze_timing_fight p1_metrics p2_metrics =
     (case analyze_timing_fight_try p1_metrics p2_metrics of
        Inl e \<Rightarrow> (None, DRAW, DRAW)
      | Inr r \<Rightarrow> r)"

text \<open>
  The body of the \<^verbatim>\<open>try\<close> of \<^verbatim>\<open>_calculate_activity_score\<close>. The literals
  \<^verbatim>\<open>0.7\<close> and \<^verbatim>\<open>0.3\<close> are the doubles nearest to 7/10 and 3/10. The operands are
  evaluated from left to right.
\<close>

definition calculate_activity_score_try :: "metrics \<Rightarrow> exn + pyval" where
  "calculate_activity_score_try m =
     (let speak_time = dict_get m ''speak_time'' (PyInt 0);
          average_volume = dict_get m ''average_volume'' (PyInt 0);
          total_join_time = dict_get m ''total_join_time'' (PyInt 1)
      in try_bind (py_gt total_join_time (PyInt 0)) (\<lambda>positive.
         try_bind (if positive then py_truediv speak_time total_join_time
                   else Inr (PyInt 0)) (\<lambda>speaking_percentage.
         try_bind (py_mul speaking_percentage (PyFloat (round_double (7 / 10)))) (\<lambda>speaking_part.
         try_bind (py_truediv average_volume (PyInt 10000)) (\<lambda>normalized.
         try_bind (py_mul normalized (PyFloat (round_double (3 / 10)))) (\<lambda>volume_part.
           py_add speaking_part volume_part))))))"

definition calculate_activity_score :: "metrics \<Rightarrow> pyval" where
  "calculate_activity_score m =
     (case calculate_activity_score_try m of
        Inl e \<Rightarrow> PyFloat (Finite 0)
      | Inr activity_score \<Rightarrow> activity_score)"

text \<open>The body of the \<^verbatim>\<open>try\<close> of \<^verbatim>\<open>_analyze_volume_fight\<close>.\<close>

definition analyze_volume_fight_try :: "config \<Rightarrow> metrics \<Rightarrow> metrics \<Rightarrow> exn + outcome" where
  "analyze_volume_fight_try cfg p1_metrics p2_metrics =
     (let p1_score = calculate_activity_score p1_metrics;
          p2_score = calculate_activity_score p2_metrics;
          threshold = PyFloat (Finite (volume_threshold cfg))
      in try_bind (py_sub p1_score p2_score) (\<lambda>d.
         try_bind (py_abs d) (\<lambda>score_difference.
         try_bind (py_lt score_difference threshold) (\<lambda>close.
           if close then Inr (None, DRAW, DRAW)
           else try_bind (py_gt p1_score p2_score) (\<lambda>p1_higher.
             if p1_higher then Inr (Some 1, WIN, LOSS)
             else Inr (Some 2, LOSS, WIN))))))"

definition analyze_volume_fight :: "config \<Rightarrow> metrics \<Rightarrow> metrics \<Rightarrow> outcome" where
  "analyze_volume_fight cfg p1_metrics p2_metrics =
     (case analyze_volume_fight_try cfg p1_metrics p2_metrics of
        Inl e \<Rightarrow> (None, DRAW, DRAW)
      | Inr r \<Rightarrow> r)"

text \<open>
  \<^verbatim>\<open>determine_winner\<close>. The contest type is \<open>Some TIMING\<close>, \<open>Some VOLUME\<close>, or
  \<open>None\<close> for any value that equals neither member of \<^verbatim>\<open>FightType\<close>.
\<close>

definition determine_winner ::
  "config \<Rightarrow> FightType option \<Rightarrow> metrics \<Rightarrow> metrics \<Rightarrow> outcome" where
  "determine_winner cfg fight_type participant1_metrics participant2_metrics =
     (case fight_type of
        Some TIMING \<Rightarrow> analyze_timing_fight participant1_metrics participant2_metrics
      | Some VOLUME \<Rightarrow> analyze_volume_fight cfg participant1_metrics participant2_metrics
      | None \<Rightarrow> (None, DRAW, DRAW))"

text \<open>A configuration for evaluating the functions at concrete inputs.\<close>

definition example_config :: config where
  "example_config =
     \<lparr>challenge_timeout = 30, max_fight_duration = 300, monitoring_interval = 5,
      volume_threshold = 1 / 10\<rparr>"
section \<open>Records of database/models.py\<close>

text \<open>
  The status names that are also states of the state machine carry the suffix \<open>_STATUS\<close>.
\<close>

datatype ChallengeStatus =
    PENDING
  | ACCEPTED_STATUS
  | DECLINED_STATUS
  | IN_PROGRESS
  | COMPLETED
  | CANCELLED_STATUS
  | EXPIRED_STATUS

text \<open>
  The model classes derive from pydantic's \<^verbatim>\<open>BaseModel\<close>, whose constructor
  validates the keyword arguments: a required field that is not passed, or that is
  \<^verbatim>\<open>None\<close> where the type does not allow it, raises \<^verbatim>\<open>ValidationError\<close>. A
  record here is a validated object, with the fields that the orchestrator reads or
  writes: each required field has a value. Object identifiers are strings.
\<close>

record Challenge =
  challenger_id :: int
  opponent_id :: int
  fight_type :: "FightType option"
  status :: ChallengeStatus
  challenge_expires_at :: datetime
  chat_id :: "int option"

record Fight =
  challenge_id :: string
  participant1_id :: int
  participant2_id :: int
  fight_type :: FightType
  duration :: int
  winner_id :: "int option"
  participant1_result :: FightResult
  participant2_result :: FightResult
  participant1_metrics :: metrics
  participant2_metrics :: metrics
  group_call_id :: string
  started_at :: datetime
  ended_at :: datetime


record User =
  total_fights :: int
  wins :: int
  losses :: int
  draws :: int

section \<open>Persistence (database/operations.py)\<close>

text \<open>
  A collection is the list of its documents, each with its key: the object identifier
  for challenges and fights, the Telegram identifier for users. A document is the
  dictionary of a validated object, and the updates of the operations below set fields
  to values of their types, so each document read back passes the validation of its
  class again. The store is taken to answer every request; the handlers that turn a
  failure of the store into \<^verbatim>\<open>None\<close> or \<^verbatim>\<open>False\<close> have no branch here.
\<close>

record database =
  challenges :: "(string \<times> Challenge) list"
  fights :: "(string \<times> Fight) list"
  users :: "(int \<times> User) list"

text \<open>\<^verbatim>\<open>collection.update_one\<close>: the first document with the key is changed.\<close>

fun update_one :: "('k \<times> 'v) list \<Rightarrow> 'k \<Rightarrow> ('v \<Rightarrow> 'v) \<Rightarrow> ('k \<times> 'v) list" where
  "update_one [] k f = []"
| "update_one ((k', v) # c) k f =
     (if k' = k then (k', f v) # c else (k', v) # update_one c k f)"

text \<open>The keyword arguments of \<^verbatim>\<open>update_user_stats\<close> name counters of a user.\<close>

datatype stat = Stat_total_fights | Stat_wins | Stat_losses | Stat_draws

fun inc_stat :: "stat \<times> int \<Rightarrow> User \<Rightarrow> User" where
  "inc_stat (Stat_total_fights, n) u = u\<lparr>total_fights := total_fights u + n\<rparr>"
| "inc_stat (Stat_wins, n) u = u\<lparr>wins := wins u + n\<rparr>"
| "inc_stat (Stat_losses, n) u = u\<lparr>losses := losses u + n\<rparr>"
| "inc_stat (Stat_draws, n) u = u\<lparr>draws := draws u + n\<rparr>"

text \<open>\<^verbatim>\<open>UserOps.update_user_stats\<close>: one \<^verbatim>\<open>$inc\<close> of the named counters.\<close>

definition update_user_stats :: "database \<Rightarrow> int \<Rightarrow> (stat \<times> int) list \<Rightarrow> database" where
  "update_user_stats d telegram_id stats =
     d\<lparr>users := update_one (users d) telegram_id (\<lambda>u. fold inc_stat stats u)\<rparr>"

definition get_challenge :: "database \<Rightarrow> string \<Rightarrow> Challenge option" where
  "get_challenge d cid = map_of (challenges d) cid"

definition update_challenge_status :: "database \<Rightarrow> string \<Rightarrow> ChallengeStatus \<Rightarrow> database" where
  "update_challenge_status d cid st =
     d\<lparr>challenges := update_one (challenges d) cid (\<lambda>c. c\<lparr>status := st\<rparr>)\<rparr>"

text \<open>
  \<^verbatim>\<open>ChallengeOps.get_pending_challenges\<close>: the pending, unexpired challenges addressed
  to a user.
\<close>

definition get_pending_challenges :: "database \<Rightarrow> int \<Rightarrow> datetime \<Rightarrow> Challenge list" where
  "get_pending_challenges d telegram_id now =
     map snd (filter (\<lambda>(k, c). opponent_id c = telegram_id \<and> status c = PENDING
                               \<and> challenge_expires_at c > now) (challenges d))"

text \<open>
  \<^verbatim>\<open>ChallengeOps.create_challenge\<close> and \<^verbatim>\<open>FightOps.create_fight\<close>. The store
  chooses the identifier of the new document; it is the parameter \<open>new_id\<close>, and an
  identifier already in use makes the insertion fail.
\<close>

definition create_challenge_doc ::
  "database \<Rightarrow> string \<Rightarrow> Challenge \<Rightarrow> string option \<times> database" where
  "create_challenge_doc d new_id challenge =
     (if map_of (challenges d) new_id \<noteq> None then (None, d)
      else (Some new_id, d\<lparr>challenges := challenges d @ [(new_id, challenge)]\<rparr>))"


definition get_fight :: "database \<Rightarrow> string \<Rightarrow> Fight option" where
  "get_fight d fid = map_of (fights d) fid"

definition update_fight_metrics :: "database \<Rightarrow> string \<Rightarrow> int \<Rightarrow> metrics \<Rightarrow> database" where
  "update_fight_metrics d fid participant_id m =
     (case get_fight d fid of
        None \<Rightarrow> d
      | Some fight \<Rightarrow>
          if participant_id = participant1_id fight
          then d\<lparr>fights := update_one (fights d) fid (\<lambda>f. f\<lparr>participant1_metrics := m\<rparr>)\<rparr>
          else d\<lparr>fights := update_one (fights d) fid (\<lambda>f. f\<lparr>participant2_metrics := m\<rparr>)\<rparr>)"

definition finish_fight ::
  "database \<Rightarrow> string \<Rightarrow> int option \<Rightarrow> FightResult \<Rightarrow> FightResult \<Rightarrow> datetime \<Rightarrow> database" where
  "finish_fight d fid winner r1 r2 now =
     d\<lparr>fights := update_one (fights d) fid
          (\<lambda>f. f\<lparr>winner_id := winner, participant1_result := r1,
                  participant2_result := r2, ended_at := now\<rparr>)\<rparr>"

text \<open>
  \<^verbatim>\<open>ChallengeOps.expire_old_challenges\<close>: every pending challenge past its expiry is
  marked expired, and the number of changed documents is returned.
\<close>

definition expire_old_challenge_docs :: "database \<Rightarrow> datetime \<Rightarrow> int \<times> database" where
  "expire_old_challenge_docs d now =
     (let old = (\<lambda>c. status c = PENDING \<and> challenge_expires_at c < now)
      in (int (length (filter (\<lambda>(k, c). old c) (challenges d))),
          d\<lparr>challenges :=
               map (\<lambda>(k, c). if old c then (k, c\<lparr>status := EXPIRED_STATUS\<rparr>) else (k, c))
                 (challenges d)\<rparr>))"

section \<open>Orchestrator (challenge/manager.py)\<close>

text \<open>
  The calls that the orchestrator makes to the recording manager and to the userbot
  manager. \<^verbatim>\<open>cleanup_fight\<close> is the only call of the orchestrator that releases
  userbots to the pool.
\<close>

datatype call =
    StartRecording string bool
  | StopRecording string
  | CleanupFight int int

text \<open>
  The state of a \<^verbatim>\<open>ChallengeManager\<close> and of its collaborators: the store, the
  table \<^verbatim>\<open>_active_challenges\<close>, the table \<^verbatim>\<open>_fight_tasks\<close> (a task is its fight
  identifier), and the keys of the recording manager's \<^verbatim>\<open>active_recordings\<close>. Two
  fields record what the run leaves behind and are read by no operation: \<open>calls\<close>, the
  calls made to the two collaborators, in order; and \<open>discarded\<close>, each state machine
  object as it is when its entry is deleted from the table.
\<close>

record ChallengeManager =
  db :: database
  active_challenges :: "string \<rightharpoonup> ChallengeStateMachine"
  fight_tasks :: "string \<rightharpoonup> string"
  active_recordings :: "string set"
  calls :: "call list"
  discarded :: "string \<rightharpoonup> ChallengeStateMachine"

text \<open>
  \<^verbatim>\<open>RecordingManager.start_recording\<close> and \<^verbatim>\<open>stop_recording\<close>, as far as the
  table of active recordings goes.
\<close>

definition start_recording :: "ChallengeManager \<Rightarrow> string \<Rightarrow> bool \<Rightarrow> ChallengeManager" where
  "start_recording s fid include_video =
     s\<lparr>calls := calls s @ [StartRecording fid include_video],
       active_recordings := insert fid (active_recordings s)\<rparr>"

definition stop_recording :: "ChallengeManager \<Rightarrow> string \<Rightarrow> ChallengeManager" where
  "stop_recording s fid =
     s\<lparr>calls := calls s @ [StopRecording fid],
       active_recordings := active_recordings s - {fid}\<rparr>"

definition cleanup_fight :: "ChallengeManager \<Rightarrow> int \<Rightarrow> int \<Rightarrow> ChallengeManager" where
  "cleanup_fight s p1 p2 = s\<lparr>calls := calls s @ [CleanupFight p1 p2]\<rparr>"

text \<open>
  The block that ends every path of the orchestrator:
  \<^verbatim>\<open>if challenge_id in self._active_challenges:
      self._active_challenges[challenge_id].transition_to(target)
      del self._active_challenges[challenge_id]\<close>
  The result of \<^verbatim>\<open>transition_to\<close> is not looked at.
\<close>

definition transition_and_delete ::
  "ChallengeManager \<Rightarrow> string \<Rightarrow> ChallengeState \<Rightarrow> datetime \<Rightarrow> ChallengeManager" where
  "transition_and_delete s cid target now =
     (case active_challenges s cid of
        None \<Rightarrow> s
      | Some m \<Rightarrow>
          s\<lparr>active_challenges := (active_challenges s)(cid := None),
            discarded := (discarded s)(cid \<mapsto> snd (transition_to m target now))\<rparr>)"

text \<open>
  \<^verbatim>\<open>create_challenge\<close>. The expiry is twice the timeout, in microseconds.
\<close>

definition create_challenge ::
  "config \<Rightarrow> ChallengeManager \<Rightarrow> int \<Rightarrow> int \<Rightarrow> int \<Rightarrow> string \<Rightarrow> datetime
     \<Rightarrow> string option \<times> ChallengeManager" where
  "create_challenge cfg s challenger opponent chat new_id now =
     (if \<exists>c \<in> set (get_pending_challenges (db s) opponent now). challenger_id c = challenger
      then (None, s)
      else
        let challenge = \<lparr>challenger_id = challenger, opponent_id = opponent,
                         Challenge.fight_type = None, status = PENDING,
                         challenge_expires_at = now + challenge_timeout cfg * 2 * 1000000,
                         chat_id = Some chat\<rparr>
        in case create_challenge_doc (db s) new_id challenge of
             (None, d) \<Rightarrow> (None, s)
           | (Some cid, d) \<Rightarrow>
               (Some cid,
                s\<lparr>db := d,
                  active_challenges := (active_challenges s)
                    (cid \<mapsto> snd (transition_to (init_machine CREATED now) SENT now))\<rparr>))"


text \<open>\<^verbatim>\<open>_end_fight_no_show\<close>.\<close>

definition end_fight_no_show ::
  "ChallengeManager \<Rightarrow> string \<Rightarrow> string \<Rightarrow> datetime \<Rightarrow> ChallengeManager" where
  "end_fight_no_show s cid fid now =
     (let s1 = s\<lparr>db := finish_fight (db s) fid None NO_SHOW NO_SHOW now\<rparr>;
          s2 = s1\<lparr>db := update_challenge_status (db s1) cid COMPLETED\<rparr>
      in transition_and_delete s2 cid FIGHT_FINISHED now)"

text \<open>\<^verbatim>\<open>_end_fight_error\<close>.\<close>

definition end_fight_error ::
  "ChallengeManager \<Rightarrow> string \<Rightarrow> string \<Rightarrow> datetime \<Rightarrow> ChallengeManager" where
  "end_fight_error s cid fid now =
     (let s1 = s\<lparr>db := finish_fight (db s) fid None CANCELLED_RESULT CANCELLED_RESULT now\<rparr>;
          s2 = s1\<lparr>db := update_challenge_status (db s1) cid CANCELLED_STATUS\<rparr>;
          s3 = transition_and_delete s2 cid CANCELLED now
      in stop_recording s3 fid)"

text \<open>
  Reading an attribute of the challenge that \<^verbatim>\<open>get_challenge\<close> returned: on
  \<^verbatim>\<open>None\<close> it raises \<^verbatim>\<open>AttributeError\<close>.
\<close>

definition attr :: "Challenge option \<Rightarrow> (Challenge \<Rightarrow> 'a) \<Rightarrow> exn + 'a" where
  "attr challenge field = (case challenge of None \<Rightarrow> Inl AttributeError | Some c \<Rightarrow> Inr (field c))"

text \<open>
  The decision inside \<^verbatim>\<open>_end_fight_with_results\<close>: the winner's identifier and the
  two results, from the contest type (the parameter \<^verbatim>\<open>fight_type\<close>, written
  \<open>contest_type\<close> here) and the two bags. The variables start as
  \<^verbatim>\<open>None\<close>, LOSS and WIN and keep these values for a contest type that is neither
  member of \<^verbatim>\<open>FightType\<close>.
\<close>

definition decide_results ::
  "Challenge option \<Rightarrow> FightType option \<Rightarrow> metrics \<Rightarrow> metrics
     \<Rightarrow> exn + (int option \<times> FightResult \<times> FightResult)" where
  "decide_results challenge contest_type p1_metrics p2_metrics =
     (case contest_type of
        Some TIMING \<Rightarrow>
          (let p1_time = dict_get p1_metrics ''join_time'' (PyInt 0);
               p2_time = dict_get p2_metrics ''join_time'' (PyInt 0)
           in try_bind (py_gt p1_time p2_time) (\<lambda>p1_longer.
                if p1_longer
                then try_bind (attr challenge challenger_id) (\<lambda>w. Inr (Some w, WIN, LOSS))
                else try_bind (py_gt p2_time p1_time) (\<lambda>p2_longer.
                  if p2_longer
                  then try_bind (attr challenge opponent_id) (\<lambda>w. Inr (Some w, LOSS, WIN))
                  else Inr (None, DRAW, DRAW))))
      | Some VOLUME \<Rightarrow>
          try_bind (py_mul (dict_get p1_metrics ''speak_time'' (PyInt 0))
                           (dict_get p1_metrics ''volume_sum'' (PyInt 0))) (\<lambda>p1_activity.
          try_bind (py_mul (dict_get p2_metrics ''speak_time'' (PyInt 0))
                           (dict_get p2_metrics ''volume_sum'' (PyInt 0))) (\<lambda>p2_activity.
          try_bind (py_gt p1_activity p2_activity) (\<lambda>p1_more.
            if p1_more
            then try_bind (attr challenge challenger_id) (\<lambda>w. Inr (Some w, WIN, LOSS))
            else try_bind (py_gt p2_activity p1_activity) (\<lambda>p2_more.
              if p2_more
              then try_bind (attr challenge opponent_id) (\<lambda>w. Inr (Some w, LOSS, WIN))
              else Inr (None, DRAW, DRAW)))))
      | None \<Rightarrow> Inr (None, LOSS, WIN))"

text \<open>The update of the two users' statistics in \<^verbatim>\<open>_end_fight_with_results\<close>.\<close>

definition update_result_stats ::
  "database \<Rightarrow> Challenge \<Rightarrow> FightResult \<Rightarrow> FightResult \<Rightarrow> database" where
  "update_result_stats d challenge p1_result p2_result =
     (if p1_result = WIN then
        update_user_stats
          (update_user_stats d (challenger_id challenge) [(Stat_wins, 1), (Stat_total_fights, 1)])
          (opponent_id challenge) [(Stat_losses, 1), (Stat_total_fights, 1)]
      else if p2_result = WIN then
        update_user_stats
          (update_user_stats d (challenger_id challenge) [(Stat_losses, 1), (Stat_total_fights, 1)])
          (opponent_id challenge) [(Stat_wins, 1), (Stat_total_fights, 1)]
      else
        update_user_stats
          (update_user_stats d (challenger_id challenge) [(Stat_draws, 1), (Stat_total_fights, 1)])
          (opponent_id challenge) [(Stat_draws, 1), (Stat_total_fights, 1)])"

text \<open>
  \<^verbatim>\<open>_end_fight_with_results\<close>. An exception of the decision, or of reading the
  challenge's participants for the statistics when the challenge is \<^verbatim>\<open>None\<close>, goes
  to the handler, which calls \<^verbatim>\<open>_end_fight_error\<close>. The duration is only logged.
\<close>

definition end_fight_with_results ::
  "ChallengeManager \<Rightarrow> string \<Rightarrow> string \<Rightarrow> int \<Rightarrow> metrics \<Rightarrow> metrics \<Rightarrow> FightType option
     \<Rightarrow> datetime \<Rightarrow> ChallengeManager" where
  "end_fight_with_results s cid fid fight_duration p1_metrics p2_metrics
       contest_type now =
     (let s1 = stop_recording s fid;
          challenge = get_challenge (db s1) cid
      in case decide_results challenge contest_type p1_metrics p2_metrics of
           Inl e \<Rightarrow> end_fight_error s1 cid fid now
         | Inr (winner, r1, r2) \<Rightarrow>
             let s2 = s1\<lparr>db := finish_fight (db s1) fid winner r1 r2 now\<rparr>
             in case challenge of
                  None \<Rightarrow> end_fight_error s2 cid fid now
                | Some ch \<Rightarrow>
                    let s3 = s2\<lparr>db := update_result_stats (db s2) ch r1 r2\<rparr>;
                        s4 = s3\<lparr>db := update_challenge_status (db s3) cid COMPLETED\<rparr>;
                        s5 = transition_and_delete s4 cid FIGHT_FINISHED now
                    in cleanup_fight s5 (challenger_id ch) (opponent_id ch))"

text \<open>
  One pass of the sampling loop of \<^verbatim>\<open>_monitor_fight\<close>, as the environment
  answers it: either the task is cancelled while the routine waits in
  \<^verbatim>\<open>asyncio.sleep\<close>, or the sleep ends, \<^verbatim>\<open>get_fight_metrics\<close> returns the two
  participants' bags or \<^verbatim>\<open>None\<close>, and \<^verbatim>\<open>are_participants_active\<close> returns a
  boolean.
\<close>

datatype tick = Cancel | Tick "(metrics \<times> metrics) option" bool

text \<open>
  How the loop ends: by its condition or its \<^verbatim>\<open>break\<close> (with the duration and the
  last bags), by \<^verbatim>\<open>CancelledError\<close> at the sleep, or not within the answers given.
\<close>

text \<open>
  A cancellation stands for the pass in which the routine is waiting: an answer after
  the last pass of the loop is not read.
\<close>

datatype loop_end =
    Loop_exit int metrics metrics database
  | Loop_cancelled database
  | Loop_unanswered database

fun sampling_loop ::
  "config \<Rightarrow> Challenge \<Rightarrow> string \<Rightarrow> tick list \<Rightarrow> int \<Rightarrow> metrics \<Rightarrow> metrics \<Rightarrow> database
     \<Rightarrow> loop_end" where
  "sampling_loop cfg challenge fid [] fight_duration m1 m2 d =
     (if fight_duration < max_fight_duration cfg then Loop_unanswered d
      else Loop_exit fight_duration m1 m2 d)"
| "sampling_loop cfg challenge fid (Cancel # rest) fight_duration m1 m2 d =
     (if fight_duration < max_fight_duration cfg then Loop_cancelled d
      else Loop_exit fight_duration m1 m2 d)"
| "sampling_loop cfg challenge fid (Tick current_metrics active # rest) fight_duration m1 m2 d =
     (if fight_duration < max_fight_duration cfg then
        (let fight_duration' = fight_duration + monitoring_interval cfg in
         case current_metrics of
           None \<Rightarrow>
             if \<not> active then Loop_exit fight_duration' m1 m2 d
             else sampling_loop cfg challenge fid rest fight_duration' m1 m2 d
         | Some (c1, c2) \<Rightarrow>
             let d' = update_fight_metrics
                        (update_fight_metrics d fid (challenger_id challenge) c1)
                        fid (opponent_id challenge) c2
             in if \<not> active then Loop_exit fight_duration' c1 c2 d'
                else sampling_loop cfg challenge fid rest fight_duration' c1 c2 d')
      else Loop_exit fight_duration m1 m2 d)"

text \<open>
  What the environment gives one run of \<^verbatim>\<open>_monitor_fight\<close>: whether the task is
  cancelled during the wait for the participants, the answer of
  \<^verbatim>\<open>check_participants_joined\<close>, the answers to the passes of the loop, and the
  clock readings when the fight becomes active and when it ends.
\<close>

record monitor_env =
  cancelled_in_join_wait :: bool
  participants_joined :: bool
  ticks :: "tick list"
  time_active :: datetime
  time_end :: datetime

text \<open>
  How a run of the routine ends: it returns; or \<^verbatim>\<open>CancelledError\<close> leaves it (the
  clause \<^verbatim>\<open>except Exception\<close> does not catch that exception, which derives from
  \<^verbatim>\<open>BaseException\<close>); or the answers given do not reach the end of the loop.
\<close>

datatype routine_end = Returned | Cancelled_at_await | Unanswered

definition initial_metrics :: metrics where
  "initial_metrics =
     [''join_time'' \<mapsto> PyInt 0, ''speak_time'' \<mapsto> PyInt 0, ''volume_sum'' \<mapsto> PyFloat (Finite 0)]"

text \<open>
  \<^verbatim>\<open>_monitor_fight\<close>. Other operations of the manager are not interleaved with the
  run; the only outside event is the cancellation of the task.
\<close>

definition monitor_fight ::
  "config \<Rightarrow> monitor_env \<Rightarrow> ChallengeManager \<Rightarrow> string \<Rightarrow> string
     \<Rightarrow> routine_end \<times> ChallengeManager" where
  "monitor_fight cfg env s cid fid =
     (case get_challenge (db s) cid of
        None \<Rightarrow> (Returned, s)
      | Some challenge \<Rightarrow>
          (case active_challenges s cid of
             None \<Rightarrow> (Returned, s)
           | Some state_machine \<Rightarrow>
               if cancelled_in_join_wait env then (Cancelled_at_await, s)
               else if \<not> participants_joined env
               then (Returned, end_fight_no_show s cid fid (time_active env))
               else
                 let s1 = s\<lparr>active_challenges := (active_challenges s)
                            (cid \<mapsto> snd (transition_to state_machine FIGHT_ACTIVE (time_active env)))\<rparr>;
                     s2 = start_recording s1 fid (Challenge.fight_type challenge = Some VOLUME)
                 in case sampling_loop cfg challenge fid (ticks env) 0
                           initial_metrics initial_metrics (db s2) of
                      Loop_cancelled d \<Rightarrow> (Cancelled_at_await, s2\<lparr>db := d\<rparr>)
                    | Loop_unanswered d \<Rightarrow> (Unanswered, s2\<lparr>db := d\<rparr>)
                    | Loop_exit fight_duration m1 m2 d \<Rightarrow>
                        (Returned,
                         end_fight_with_results (s2\<lparr>db := d\<rparr>) cid fid fight_duration m1 m2
                           (Challenge.fight_type challenge) (time_end env))))"

text \<open>
  \<^verbatim>\<open>cancel_challenge\<close>. \<^verbatim>\<open>task.cancel()\<close> asks for the cancellation of the
  routine, which \<^verbatim>\<open>monitor_fight\<close> receives from its environment.
\<close>

definition cancel_challenge ::
  "ChallengeManager \<Rightarrow> string \<Rightarrow> datetime \<Rightarrow> bool \<times> ChallengeManager" where
  "cancel_challenge s cid now =
     (let s1 = (if cid \<in> dom (fight_tasks s)
                then s\<lparr>fight_tasks := (fight_tasks s)(cid := None)\<rparr> else s);
          s2 = s1\<lparr>db := update_challenge_status (db s1) cid CANCELLED_STATUS\<rparr>
      in (True, transition_and_delete s2 cid CANCELLED now))"

text \<open>
  \<^verbatim>\<open>expire_old_challenges\<close>. The first loop collects the entries whose time in the
  current state exceeds three timeouts; the second loop calls
  \<^verbatim>\<open>transition_to(EXPIRED)\<close> on each and deletes it. Each entry is treated by itself,
  so the two loops are one map over the table.
\<close>

definition expire_old_challenges ::
  "config \<Rightarrow> ChallengeManager \<Rightarrow> datetime \<Rightarrow> int \<times> ChallengeManager" where
  "expire_old_challenges cfg s now =
     (let (expired_count, d) = expire_old_challenge_docs (db s) now;
          old = (\<lambda>m. get_time_in_state m now > challenge_timeout cfg * 3)
      in (expired_count,
          s\<lparr>db := d,
            active_challenges :=
              (\<lambda>cid. case active_challenges s cid of
                        None \<Rightarrow> None
                      | Some m \<Rightarrow> if old m then None else Some m),
            discarded :=
              (\<lambda>cid. case active_challenges s cid of
                        None \<Rightarrow> discarded s cid
                      | Some m \<Rightarrow> if old m then Some (snd (transition_to m EXPIRED now))
                                  else discarded s cid)\<rparr>))"


text \<open>
  A store and a manager for evaluating the operations at concrete inputs. The fight
  \<open>f1\<close> has the outcome fields that \<^verbatim>\<open>start_fight\<close> passes to the constructor.
\<close>

definition example_challenge :: Challenge where
  "example_challenge =
     \<lparr>challenger_id = 101, opponent_id = 202, Challenge.fight_type = Some TIMING,
      status = IN_PROGRESS, challenge_expires_at = 60000000, chat_id = Some 7\<rparr>"

definition example_user :: User where
  "example_user = \<lparr>total_fights = 0, wins = 0, losses = 0, draws = 0\<rparr>"

definition example_fight :: Fight where
  "example_fight =
     \<lparr>challenge_id = ''c1'', participant1_id = 101, participant2_id = 202,
      Fight.fight_type = TIMING, duration = 0, winner_id = None,
      participant1_result = WIN, participant2_result = LOSS,
      participant1_metrics = Map.empty, participant2_metrics = Map.empty,
      group_call_id = [], started_at = 0, ended_at = 0\<rparr>"

definition example_db :: database where
  "example_db =
     \<lparr>challenges = [(''c1'', example_challenge)], fights = [(''f1'', example_fight)],
      users = [(101, example_user), (202, example_user)]\<rparr>"

definition example_manager :: "ChallengeState \<Rightarrow> ChallengeManager" where
  "example_manager st =
     \<lparr>db = example_db,
      active_challenges = [''c1'' \<mapsto> init_machine st 0],
      fight_tasks = Map.empty,
      active_recordings = {},
      calls = [],
      discarded = Map.empty\<rparr>"

text \<open>
  What is read off a state in the statements below: the outcome fields of a persisted
  fight, the counters of a user, and the calls that stop a recording or release
  userbots.
\<close>

definition persisted_outcome ::
  "database \<Rightarrow> string \<Rightarrow> (int option \<times> FightResult \<times> FightResult \<times> int \<times> string) option" where
  "persisted_outcome d fid =
     map_option (\<lambda>f. (winner_id f, participant1_result f, participant2_result f,
                        duration f, group_call_id f)) (get_fight d fid)"

definition user_counters :: "database \<Rightarrow> int \<Rightarrow> (int \<times> int \<times> int \<times> int) option" where
  "user_counters d telegram_id =
     map_option (\<lambda>u. (total_fights u, wins u, losses u, draws u)) (map_of (users d) telegram_id)"

fun is_release :: "call \<Rightarrow> bool" where
  "is_release (StartRecording fid v) = False"
| "is_release (StopRecording fid) = True"
| "is_release (CleanupFight p1 p2) = True"

text \<open>No counter of any user is smaller after an update than before it.\<close>

definition counters_grow :: "database \<Rightarrow> database \<Rightarrow> bool" where
  "counters_grow d d' \<longleftrightarrow>
     (\<forall>t n w l dr. user_counters d t = Some (n, w, l, dr) \<longrightarrow>
        (\<exists>n' w' l' dr'. user_counters d' t = Some (n', w', l', dr')
           \<and> n \<le> n' \<and> w \<le> w' \<and> l \<le> l' \<and> dr \<le> dr'))"

text \<open>
  Environments for evaluating \<^verbatim>\<open>_monitor_fight\<close>: one in which the participants
  have not joined after the wait of 30 seconds, and one in which they have joined and
  the task is cancelled during the third pass of the loop.
\<close>

definition example_no_show_env :: monitor_env where
  "example_no_show_env =
     \<lparr>cancelled_in_join_wait = False, participants_joined = False, ticks = [],
      time_active = 30000000, time_end = 30000000\<rparr>"

definition example_cancel_env :: monitor_env where
  "example_cancel_env =
     \<lparr>cancelled_in_join_wait = False, participants_joined = True,
      ticks = [Tick None True, Tick None True, Cancel],
      time_active = 30000000, time_end = 45000000\<rparr>"

section \<open>State machine: transitions follow the table\<close>

lemma transition_to_success_iff:
  "fst (transition_to m t now) \<longleftrightarrow> t \<in> VALID_TRANSITIONS (current_state m)"
  by (simp add: transition_to_def can_transition_to_def)

lemma transition_to_rejected:
  "\<not> fst (transition_to m t now) \<Longrightarrow> snd (transition_to m t now) = m"
  by (simp add: transition_to_def split: if_splits)

lemma transition_to_accepted:
  "fst (transition_to m t now) \<Longrightarrow> current_state (snd (transition_to m t now)) = t"
  by (simp add: transition_to_def split: if_splits)

text \<open>
  Claim C1. For every machine in a state S and every target T, \<^verbatim>\<open>transition_to(T)\<close>
  returns success exactly when (S, T) is an edge of the fixed adjacency table
  (CREATED to SENT or CANCELLED; SENT to ACCEPTED, DECLINED, EXPIRED or CANCELLED;
  ACCEPTED to FIGHT_TYPE_SELECTED or CANCELLED; FIGHT_TYPE_SELECTED to
  PARTICIPANTS_JOINING or CANCELLED; PARTICIPANTS_JOINING to FIGHT_ACTIVE, EXPIRED or
  CANCELLED; FIGHT_ACTIVE to FIGHT_FINISHED or CANCELLED; no edge leaves a terminal
  state). After a rejected call the reported current state is still S and the history
  is the one before the call.
\<close>

theorem transition_to_iff_edge:
  "(fst (transition_to m t now) \<longleftrightarrow>
      (current_state m, t) \<in>
        {(CREATED, SENT), (CREATED, CANCELLED),
         (SENT, ACCEPTED), (SENT, DECLINED), (SENT, EXPIRED), (SENT, CANCELLED),
         (ACCEPTED, FIGHT_TYPE_SELECTED), (ACCEPTED, CANCELLED),
         (FIGHT_TYPE_SELECTED, PARTICIPANTS_JOINING), (FIGHT_TYPE_SELECTED, CANCELLED),
         (PARTICIPANTS_JOINING, FIGHT_ACTIVE), (PARTICIPANTS_JOINING, EXPIRED),
         (PARTICIPANTS_JOINING, CANCELLED),
         (FIGHT_ACTIVE, FIGHT_FINISHED), (FIGHT_ACTIVE, CANCELLED)}) \<and>
   (\<not> fst (transition_to m t now) \<longrightarrow>
      get_current_state (snd (transition_to m t now)) = current_state m \<and>
      state_history (snd (transition_to m t now)) = state_history m)"
proof (intro conjI impI)
  show "fst (transition_to m t now) \<longleftrightarrow>
     (current_state m, t) \<in>
       {(CREATED, SENT), (CREATED, CANCELLED),
        (SENT, ACCEPTED), (SENT, DECLINED), (SENT, EXPIRED), (SENT, CANCELLED),
        (ACCEPTED, FIGHT_TYPE_SELECTED), (ACCEPTED, CANCELLED),
        (FIGHT_TYPE_SELECTED, PARTICIPANTS_JOINING), (FIGHT_TYPE_SELECTED, CANCELLED),
        (PARTICIPANTS_JOINING, FIGHT_ACTIVE), (PARTICIPANTS_JOINING, EXPIRED),
        (PARTICIPANTS_JOINING, CANCELLED),
        (FIGHT_ACTIVE, FIGHT_FINISHED), (FIGHT_ACTIVE, CANCELLED)}"
    unfolding transition_to_success_iff
    by (cases "current_state m"; cases t; simp)
next
  assume "\<not> fst (transition_to m t now)"
  then have "snd (transition_to m t now) = m"
    by (rule transition_to_rejected)
  then show "get_current_state (snd (transition_to m t now)) = current_state m"
    by (simp add: get_current_state_def)
next
  assume "\<not> fst (transition_to m t now)"
  then have "snd (transition_to m t now) = m"
    by (rule transition_to_rejected)
  then show "state_history (snd (transition_to m t now)) = state_history m"
    by simp
qed

text \<open>
  The theorem at a rejected call: a machine in SENT asked for FIGHT_ACTIVE refuses,
  stays in SENT and keeps its one-entry history.
\<close>

theorem transition_to_iff_edge_witness:
  "\<not> fst (transition_to (init_machine SENT 0) FIGHT_ACTIVE 7) \<and>
   get_current_state (snd (transition_to (init_machine SENT 0) FIGHT_ACTIVE 7)) = SENT \<and>
   state_history (snd (transition_to (init_machine SENT 0) FIGHT_ACTIVE 7)) = [(SENT, 0)]"
  using transition_to_iff_edge [of "init_machine SENT 0" FIGHT_ACTIVE 7]
  by (simp add: init_machine_def)

section \<open>Rounding to a double\<close>

lemma floor_rat_numeral: "\<lfloor>(numeral a :: rat) / numeral b\<rfloor> = numeral a div numeral b"
  using floor_divide_of_int_eq [of "numeral a" "numeral b", where ?'a = rat] by simp

lemma quantum_exponent_eq:
  assumes "e0 \<le> e" and "nat (e - e0) \<le> n" and "a < 2 powi (e + 53)"
    and "e = e0 \<or> 2 powi (e + 52) \<le> a"
  shows "quantum_exponent n a e0 = e"
  using assms
proof (induction n arbitrary: e0)
  case 0
  then show ?case by simp
next
  case (Suc n)
  show ?case
  proof (cases "a < 2 powi (e0 + 53)")
    case True
    have "e = e0"
    proof (rule ccontr)
      assume "e \<noteq> e0"
      with Suc.prems have low: "2 powi (e + 52) \<le> a" and "e0 + 53 \<le> e + 52" by simp_all
      then have "(2::rat) powi (e0 + 53) \<le> 2 powi (e + 52)"
        by (intro power_int_increasing) simp_all
      with low True show False by simp
    qed
    with True show ?thesis by simp
  next
    case False
    with Suc.prems(3) have "e \<noteq> e0" by auto
    with Suc.prems have "e0 + 1 \<le> e" "nat (e - (e0 + 1)) \<le> n" "e = e0 + 1 \<or> 2 powi (e + 52) \<le> a"
      by auto
    from Suc.IH [OF this(1,2) Suc.prems(3) this(3)] False show ?thesis by simp
  qed
qed

lemma quantum_exponent_cap:
  "2 powi (e0 + int n + 52) \<le> a \<Longrightarrow> quantum_exponent n a e0 = e0 + int n"
proof (induction n arbitrary: e0)
  case 0
  then show ?case by simp
next
  case (Suc n)
  have "(2::rat) powi (e0 + 53) \<le> 2 powi (e0 + int (Suc n) + 52)"
    by (intro power_int_increasing) simp_all
  with Suc.prems have "\<not> a < 2 powi (e0 + 53)" by simp
  moreover have "quantum_exponent n a (e0 + 1) = e0 + 1 + int n"
    using Suc.prems by (intro Suc.IH) (simp add: algebra_simps)
  ultimately show ?case by simp
qed

text \<open>
  The rule by which a rounding is evaluated: e is the exponent of the spacing around
  x, and m the integer nearest to x in units of that spacing.
\<close>

lemma round_double_eq:
  assumes "- 1074 \<le> e" and "e \<le> 971"
    and "\<bar>x\<bar> < 2 powi (e + 53)"
    and "e = - 1074 \<or> 2 powi (e + 52) \<le> \<bar>x\<bar>"
    and "round_half_even (\<bar>x\<bar> / 2 powi e) = m"
    and "of_int m * 2 powi e < (2::rat) powi 1024"
  shows "round_double x = Finite (if 0 \<le> x then of_int m * 2 powi e else - (of_int m * 2 powi e))"
proof -
  have "quantum_exponent 2045 \<bar>x\<bar> (- 1074) = e"
    using assms(1-4) by (intro quantum_exponent_eq) simp_all
  moreover from assms(6) have "\<not> 2 powi 1024 \<le> rat_of_int m * 2 powi e"
    by (simp only: not_le)
  ultimately show ?thesis
    unfolding round_double_def Let_def by (simp only: assms(5) if_False)
qed

lemma round_half_even_ge: "\<lfloor>x\<rfloor> \<le> round_half_even x"
  by (simp add: round_half_even_def Let_def)

text \<open>A magnitude of 2 to the power 1024 or more overflows.\<close>

lemma round_double_overflow:
  assumes "2 powi 1024 \<le> \<bar>x\<bar>"
  shows "round_double x = (if 0 < x then PosInf else NegInf)"
proof -
  have e: "quantum_exponent 2045 \<bar>x\<bar> (- 1074) = 971"
    using quantum_exponent_cap [of "- 1074" 2045 "\<bar>x\<bar>"] assms by simp
  have "(2::rat) powi 1024 = 2 powi 53 * 2 powi 971"
    by (simp add: power_int_add [symmetric])
  with assms have "(2::rat) powi 53 \<le> \<bar>x\<bar> / 2 powi 971"
    by (simp add: pos_le_divide_eq)
  then have "(2::int) ^ 53 \<le> \<lfloor>\<bar>x\<bar> / 2 powi 971\<rfloor>"
    by (simp add: le_floor_iff)
  with round_half_even_ge [of "\<bar>x\<bar> / 2 powi 971"]
  have "(2::int) ^ 53 \<le> round_half_even (\<bar>x\<bar> / 2 powi 971)" by linarith
  then have "(2::rat) ^ 53 \<le> of_int (round_half_even (\<bar>x\<bar> / 2 powi 971))"
    by (metis of_int_le_iff of_int_numeral of_int_power)
  then have "(2::rat) powi 53 * 2 powi 971 \<le> of_int (round_half_even (\<bar>x\<bar> / 2 powi 971)) * 2 powi 971"
    by (intro mult_right_mono) simp_all
  then have "(2::rat) powi 1024 \<le> of_int (round_half_even (\<bar>x\<bar> / 2 powi 971)) * 2 powi 971"
    by (simp add: power_int_add [symmetric])
  with e show ?thesis
    by (simp add: round_double_def Let_def)
qed

lemma round_double_zero: "round_double 0 = Finite 0"
  by (rule round_double_eq [where e = "- 1074" and m = 0, THEN trans])
    (simp_all add: round_half_even_def Let_def)

text \<open>The doubles that the literals \<^verbatim>\<open>0.7\<close>, \<^verbatim>\<open>0.3\<close>, \<^verbatim>\<open>5.1\<close> and \<^verbatim>\<open>0.1\<close> denote.\<close>

lemma literal_0_7: "round_double (7 / 10) = Finite (3152519739159347 / 4503599627370496)"
  by (rule round_double_eq [where e = "- 53" and m = 6305039478318694, THEN trans])
    (simp_all add: round_half_even_def Let_def floor_rat_numeral)

lemma literal_0_3: "round_double (3 / 10) = Finite (5404319552844595 / 18014398509481984)"
  by (rule round_double_eq [where e = "- 54" and m = 5404319552844595, THEN trans])
    (simp_all add: round_half_even_def Let_def floor_rat_numeral)



lemma float_of_int_0: "float_of_int 0 = Inr (Finite 0)"
  by (simp add: float_of_int_def round_double_zero)


section \<open>Winner detection: timing contest\<close>

lemma analyze_timing_fight_ints:
  assumes "dict_get p1 ''total_join_time'' (PyInt 0) = PyInt a"
    and "dict_get p2 ''total_join_time'' (PyInt 0) = PyInt b"
  shows "analyze_timing_fight p1 p2 =
     (if \<bar>a - b\<bar> < 5 then (None, DRAW, DRAW)
      else if a > b then (Some 1, WIN, LOSS) else (Some 2, LOSS, WIN))"
  using assms
  by (simp add: analyze_timing_fight_def analyze_timing_fight_try_def py_lt_def py_gt_def
      try_bind_def)


lemma py_sub_not_number: "x = NoneVal \<or> y = NoneVal \<Longrightarrow> py_sub x y = Inl TypeError"
  by (cases x; cases y) simp_all

lemma analyze_timing_fight_not_number:
  assumes "dict_get p1 ''total_join_time'' (PyInt 0) = NoneVal
           \<or> dict_get p2 ''total_join_time'' (PyInt 0) = NoneVal"
  shows "analyze_timing_fight p1 p2 = (None, DRAW, DRAW)"
  using py_sub_not_number [OF assms]
  by (simp add: analyze_timing_fight_def analyze_timing_fight_try_def try_bind_def)

lemma fl_lt_nan: "\<not> fl_lt x NaN" "\<not> fl_lt NaN x"
  by (cases x; simp)+

lemma fl_add_nan: "fl_add x NaN = NaN" "fl_add NaN x = NaN"
  by (cases x; simp)+

lemma analyze_timing_fight_nan:
  assumes "dict_get p1 ''total_join_time'' (PyInt 0) = PyFloat f"
    and "dict_get p2 ''total_join_time'' (PyInt 0) = PyFloat g"
    and "f = NaN \<or> g = NaN"
  shows "analyze_timing_fight p1 p2 = (Some 2, LOSS, WIN)"
proof -
  from assms(3) have "fl_sub f g = NaN"
    by (auto simp: fl_sub_def fl_add_nan)
  moreover from assms(3) have "\<not> fl_lt g f"
    by (auto simp: fl_lt_nan)
  ultimately show ?thesis
    using assms(1,2)
    by (simp add: analyze_timing_fight_def analyze_timing_fight_try_def py_lt_def py_gt_def
        try_bind_def float_op_def)
qed






section \<open>Winner detection: activity score\<close>

lemma activity_score_ints:
  assumes "dict_get m ''speak_time'' (PyInt 0) = PyInt s"
    and "dict_get m ''average_volume'' (PyInt 0) = PyInt v"
    and "dict_get m ''total_join_time'' (PyInt 1) = PyInt t"
    and "0 < t"
    and "round_double (of_int s / of_int t) = Finite p"
    and "round_double (of_int v / 10000) = Finite q"
  shows "calculate_activity_score m =
     PyFloat (fl_add (fl_mul (Finite p) (round_double (7 / 10)))
                     (fl_mul (Finite q) (round_double (3 / 10))))"
  using assms
  by (simp add: calculate_activity_score_def calculate_activity_score_try_def py_gt_def
      try_bind_def float_op_def)





lemma activity_score_overflow:
  assumes "dict_get m ''speak_time'' (PyInt 0) = PyInt s"
    and "dict_get m ''total_join_time'' (PyInt 1) = PyInt t"
    and "0 < t"
    and "2 powi 1024 \<le> \<bar>of_int s / of_int t :: rat\<bar>"
  shows "calculate_activity_score m = PyFloat (Finite 0)"
  using assms(1-3) round_double_overflow [OF assms(4)]
  by (simp add: calculate_activity_score_def calculate_activity_score_try_def py_gt_def
      try_bind_def)

text \<open>The score of a bag of integers, by the five roundings of its computation.\<close>

lemma activity_score_ints_value:
  assumes "dict_get m ''speak_time'' (PyInt 0) = PyInt s"
    and "dict_get m ''average_volume'' (PyInt 0) = PyInt v"
    and "dict_get m ''total_join_time'' (PyInt 1) = PyInt t"
    and "0 < t"
    and "round_double (of_int s / of_int t) = Finite p"
    and "round_double (p * (3152519739159347 / 4503599627370496)) = Finite a"
    and "round_double (of_int v / 10000) = Finite q"
    and "round_double (q * (5404319552844595 / 18014398509481984)) = Finite b"
    and "round_double (a + b) = Finite r"
  shows "calculate_activity_score m = PyFloat (Finite r)"
  unfolding activity_score_ints [OF assms(1-5,7)] literal_0_7 literal_0_3
  using assms(6,8,9) by simp




lemma activity_score_example4:
  "calculate_activity_score
     [''speak_time'' \<mapsto> PyInt 20, ''total_join_time'' \<mapsto> PyInt 40, ''average_volume'' \<mapsto> PyInt 0]
   = PyFloat (Finite (3152519739159347 / 9007199254740992))"
proof -
  have p: "round_double (of_int 20 / of_int 40) = Finite (1 / 2)"
    by (rule round_double_eq [where e = "- 53" and m = 4503599627370496, THEN trans])
      (simp_all add: round_half_even_def Let_def floor_rat_numeral)
  have a: "round_double (1 / 2 * (3152519739159347 / 4503599627370496))
      = Finite (3152519739159347 / 9007199254740992)"
    by (rule round_double_eq [where e = "- 54" and m = 6305039478318694, THEN trans])
      (simp_all add: round_half_even_def Let_def floor_rat_numeral)
  have q: "round_double (of_int 0 / 10000) = Finite (0)"
    by (rule round_double_eq [where e = "- 1074" and m = 0, THEN trans])
      (simp_all add: round_half_even_def Let_def floor_rat_numeral)
  have b: "round_double (0 * (5404319552844595 / 18014398509481984)) = Finite (0)"
    by (rule round_double_eq [where e = "- 1074" and m = 0, THEN trans])
      (simp_all add: round_half_even_def Let_def floor_rat_numeral)
  have r: "round_double (3152519739159347 / 9007199254740992 + 0)
      = Finite (3152519739159347 / 9007199254740992)"
    by (rule round_double_eq [where e = "- 54" and m = 6305039478318694, THEN trans])
      (simp_all add: round_half_even_def Let_def floor_rat_numeral)
  show ?thesis
    by (rule activity_score_ints_value [OF _ _ _ _ p a q b r]) (simp_all add: dict_get_def)
qed


lemma activity_score_overflow_example:
  "calculate_activity_score
     [''speak_time'' \<mapsto> PyInt (2 * 10 ^ 308), ''total_join_time'' \<mapsto> PyInt 1]
   = PyFloat (Finite 0)"
  by (rule activity_score_overflow [where s = "2 * 10 ^ 308" and t = 1])
    (simp_all add: dict_get_def)







section \<open>Winner detection: outcomes, defaults and values that are not numbers\<close>

lemma analyze_timing_fight_try_outcomes:
  "analyze_timing_fight_try p1 p2 = Inr r \<Longrightarrow>
     r \<in> {(Some 1, WIN, LOSS), (Some 2, LOSS, WIN), (None, DRAW, DRAW)}"
  by (auto simp: analyze_timing_fight_try_def try_bind_def Let_def split: sum.splits if_splits)

lemma analyze_timing_fight_outcomes:
  "analyze_timing_fight p1 p2 \<in> {(Some 1, WIN, LOSS), (Some 2, LOSS, WIN), (None, DRAW, DRAW)}"
proof (cases "analyze_timing_fight_try p1 p2")
  case (Inl e)
  then show ?thesis by (simp add: analyze_timing_fight_def)
next
  case (Inr r)
  with analyze_timing_fight_try_outcomes [OF Inr] show ?thesis
    by (simp add: analyze_timing_fight_def)
qed

lemma analyze_volume_fight_try_outcomes:
  "analyze_volume_fight_try cfg p1 p2 = Inr r \<Longrightarrow>
     r \<in> {(Some 1, WIN, LOSS), (Some 2, LOSS, WIN), (None, DRAW, DRAW)}"
  by (auto simp: analyze_volume_fight_try_def try_bind_def Let_def split: sum.splits if_splits)

lemma analyze_volume_fight_outcomes:
  "analyze_volume_fight cfg p1 p2 \<in>
     {(Some 1, WIN, LOSS), (Some 2, LOSS, WIN), (None, DRAW, DRAW)}"
proof (cases "analyze_volume_fight_try cfg p1 p2")
  case (Inl e)
  then show ?thesis by (simp add: analyze_volume_fight_def)
next
  case (Inr r)
  with analyze_volume_fight_try_outcomes [OF Inr] show ?thesis
    by (simp add: analyze_volume_fight_def)
qed

lemma determine_winner_outcomes:
  "determine_winner cfg ft p1 p2 \<in>
     {(Some 1, WIN, LOSS), (Some 2, LOSS, WIN), (None, DRAW, DRAW)}"
proof (cases ft)
  case None
  then show ?thesis by (simp add: determine_winner_def)
next
  case (Some t)
  then show ?thesis
    using analyze_timing_fight_outcomes [of p1 p2] analyze_volume_fight_outcomes [of cfg p1 p2]
    by (cases t) (simp_all add: determine_winner_def)
qed

lemma timing_missing_first:
  assumes "p1 ''total_join_time'' = None"
  shows "analyze_timing_fight p1 p2 = analyze_timing_fight (p1(''total_join_time'' \<mapsto> PyInt 0)) p2"
  using assms by (simp add: analyze_timing_fight_def analyze_timing_fight_try_def dict_get_def)

lemma timing_missing_second:
  assumes "p2 ''total_join_time'' = None"
  shows "analyze_timing_fight p1 p2 = analyze_timing_fight p1 (p2(''total_join_time'' \<mapsto> PyInt 0))"
  using assms by (simp add: analyze_timing_fight_def analyze_timing_fight_try_def dict_get_def)

lemma activity_missing_speak_time:
  assumes "m ''speak_time'' = None"
  shows "calculate_activity_score m = calculate_activity_score (m(''speak_time'' \<mapsto> PyInt 0))"
  using assms
  by (simp add: calculate_activity_score_def calculate_activity_score_try_def dict_get_def)

lemma activity_missing_average_volume:
  assumes "m ''average_volume'' = None"
  shows "calculate_activity_score m = calculate_activity_score (m(''average_volume'' \<mapsto> PyInt 0))"
  using assms
  by (simp add: calculate_activity_score_def calculate_activity_score_try_def dict_get_def)

lemma activity_missing_total_join_time:
  assumes "m ''total_join_time'' = None"
  shows "calculate_activity_score m = calculate_activity_score (m(''total_join_time'' \<mapsto> PyInt 1))"
  using assms
  by (simp add: calculate_activity_score_def calculate_activity_score_try_def dict_get_def)

lemma activity_score_duration_not_number:
  assumes "dict_get m ''total_join_time'' (PyInt 1) = NoneVal"
  shows "calculate_activity_score m = PyFloat (Finite 0)"
  using assms
  by (simp add: calculate_activity_score_def calculate_activity_score_try_def py_gt_def
      try_bind_def)

lemma py_truediv_not_number: "py_truediv NoneVal y = Inl TypeError"
  by (cases y) simp_all

lemma activity_score_volume_not_number:
  assumes "dict_get m ''average_volume'' (PyInt 0) = NoneVal"
  shows "calculate_activity_score m = PyFloat (Finite 0)"
  using assms
  by (auto simp: calculate_activity_score_def calculate_activity_score_try_def
      py_truediv_not_number try_bind_def Let_def split: sum.splits if_splits)

lemma activity_score_speak_not_number:
  assumes "dict_get m ''speak_time'' (PyInt 0) = NoneVal"
    and "py_gt (dict_get m ''total_join_time'' (PyInt 1)) (PyInt 0) = Inr True"
  shows "calculate_activity_score m = PyFloat (Finite 0)"
  using assms
  by (simp add: calculate_activity_score_def calculate_activity_score_try_def
      py_truediv_not_number try_bind_def)

lemma activity_score_speak_not_read:
  assumes "py_gt (dict_get m ''total_join_time'' (PyInt 1)) (PyInt 0) = Inr False"
  shows "calculate_activity_score (m(''speak_time'' \<mapsto> v)) = calculate_activity_score m"
  using assms
  by (simp add: calculate_activity_score_def calculate_activity_score_try_def dict_get_def
      try_bind_def)

lemma py_gt_positive:
  "(p ''total_join_time'' = Some (PyInt t) \<and> 0 < t) \<or>
   (p ''total_join_time'' = Some (PyFloat (Finite y)) \<and> 0 < y) \<or>
   p ''total_join_time'' = None \<Longrightarrow>
     py_gt (dict_get p ''total_join_time'' (PyInt 1)) (PyInt 0) = Inr True"
  by (auto simp: dict_get_def py_gt_def try_bind_def)

lemma py_gt_not_positive:
  "(p ''total_join_time'' = Some (PyInt t) \<and> t \<le> 0) \<or>
   (p ''total_join_time'' = Some (PyFloat (Finite y)) \<and> y \<le> 0) \<Longrightarrow>
     py_gt (dict_get p ''total_join_time'' (PyInt 1)) (PyInt 0) = Inr False"
  by (auto simp: dict_get_def py_gt_def try_bind_def)

text \<open>
  Claim C5, as the code has it. For every contest type, recognised or not, and every
  pair of bags, \<^verbatim>\<open>determine_winner\<close> returns a value (each exception of the body is
  caught) and the value is one of the three consistent outcomes: participant 1 with
  WIN and LOSS, participant 2 with LOSS and WIN, or no winner with DRAW and DRAW. An
  unrecognised contest type gives no winner with DRAW and DRAW. A missing entry reads
  as its default: 0 for the timing contest's presence duration and for the activity
  score's active time and amplitude, 1 for the activity score's presence duration. An
  entry that is not a number is not read as 0. In the timing contest it makes the
  outcome a draw. In the activity score a presence duration or an amplitude that is
  not a number makes the score 0.0; an active time that is not a number makes the
  score 0.0 when the presence duration is positive (or missing), and is not read at
  all when the presence duration is 0 or less: the score is then the same for every
  value of the active time. A presence duration that is the float NaN, against a
  float, gives participant 2 the win in the timing contest.
\<close>

theorem determine_winner_total:
  "determine_winner cfg ft p1 p2 \<in>
     {(Some 1, WIN, LOSS), (Some 2, LOSS, WIN), (None, DRAW, DRAW)} \<and>
   determine_winner cfg None p1 p2 = (None, DRAW, DRAW) \<and>
   (p1 ''total_join_time'' = None \<longrightarrow>
      determine_winner cfg (Some TIMING) p1 p2 =
      determine_winner cfg (Some TIMING) (p1(''total_join_time'' \<mapsto> PyInt 0)) p2) \<and>
   (p2 ''total_join_time'' = None \<longrightarrow>
      determine_winner cfg (Some TIMING) p1 p2 =
      determine_winner cfg (Some TIMING) p1 (p2(''total_join_time'' \<mapsto> PyInt 0))) \<and>
   (p1 ''speak_time'' = None \<longrightarrow>
      calculate_activity_score p1 = calculate_activity_score (p1(''speak_time'' \<mapsto> PyInt 0))) \<and>
   (p1 ''average_volume'' = None \<longrightarrow>
      calculate_activity_score p1 = calculate_activity_score (p1(''average_volume'' \<mapsto> PyInt 0))) \<and>
   (p1 ''total_join_time'' = None \<longrightarrow>
      calculate_activity_score p1 = calculate_activity_score (p1(''total_join_time'' \<mapsto> PyInt 1))) \<and>
   (p1 ''total_join_time'' = Some NoneVal \<or> p2 ''total_join_time'' = Some NoneVal \<longrightarrow>
      determine_winner cfg (Some TIMING) p1 p2 = (None, DRAW, DRAW)) \<and>
   (p1 ''total_join_time'' = Some NoneVal \<or> p1 ''average_volume'' = Some NoneVal \<longrightarrow>
      calculate_activity_score p1 = PyFloat (Finite 0)) \<and>
   (p1 ''speak_time'' = Some NoneVal \<and>
    ((p1 ''total_join_time'' = Some (PyInt t) \<and> 0 < t) \<or>
     (p1 ''total_join_time'' = Some (PyFloat (Finite y)) \<and> 0 < y) \<or>
     p1 ''total_join_time'' = None) \<longrightarrow>
      calculate_activity_score p1 = PyFloat (Finite 0)) \<and>
   ((p1 ''total_join_time'' = Some (PyInt t) \<and> t \<le> 0) \<or>
    (p1 ''total_join_time'' = Some (PyFloat (Finite y)) \<and> y \<le> 0) \<longrightarrow>
      calculate_activity_score (p1(''speak_time'' \<mapsto> v)) = calculate_activity_score p1) \<and>
   (p1 ''total_join_time'' = Some (PyFloat f) \<and> p2 ''total_join_time'' = Some (PyFloat g) \<and>
    (f = NaN \<or> g = NaN) \<longrightarrow>
      determine_winner cfg (Some TIMING) p1 p2 = (Some 2, LOSS, WIN))"
proof (intro conjI impI)
  show "determine_winner cfg ft p1 p2 \<in>
     {(Some 1, WIN, LOSS), (Some 2, LOSS, WIN), (None, DRAW, DRAW)}"
    by (rule determine_winner_outcomes)
next
  show "determine_winner cfg None p1 p2 = (None, DRAW, DRAW)"
    by (simp add: determine_winner_def)
next
  assume "p1 ''total_join_time'' = None"
  then show "determine_winner cfg (Some TIMING) p1 p2 =
      determine_winner cfg (Some TIMING) (p1(''total_join_time'' \<mapsto> PyInt 0)) p2"
    using timing_missing_first [of p1 p2] by (simp add: determine_winner_def)
next
  assume "p2 ''total_join_time'' = None"
  then show "determine_winner cfg (Some TIMING) p1 p2 =
      determine_winner cfg (Some TIMING) p1 (p2(''total_join_time'' \<mapsto> PyInt 0))"
    using timing_missing_second [of p2 p1] by (simp add: determine_winner_def)
next
  assume "p1 ''speak_time'' = None"
  then show "calculate_activity_score p1 =
      calculate_activity_score (p1(''speak_time'' \<mapsto> PyInt 0))"
    by (rule activity_missing_speak_time)
next
  assume "p1 ''average_volume'' = None"
  then show "calculate_activity_score p1 =
      calculate_activity_score (p1(''average_volume'' \<mapsto> PyInt 0))"
    by (rule activity_missing_average_volume)
next
  assume "p1 ''total_join_time'' = None"
  then show "calculate_activity_score p1 =
      calculate_activity_score (p1(''total_join_time'' \<mapsto> PyInt 1))"
    by (rule activity_missing_total_join_time)
next
  assume "p1 ''total_join_time'' = Some NoneVal \<or> p2 ''total_join_time'' = Some NoneVal"
  then have "dict_get p1 ''total_join_time'' (PyInt 0) = NoneVal
      \<or> dict_get p2 ''total_join_time'' (PyInt 0) = NoneVal"
    by (auto simp: dict_get_def)
  then show "determine_winner cfg (Some TIMING) p1 p2 = (None, DRAW, DRAW)"
    by (simp add: determine_winner_def analyze_timing_fight_not_number)
next
  assume "p1 ''total_join_time'' = Some NoneVal \<or> p1 ''average_volume'' = Some NoneVal"
  then show "calculate_activity_score p1 = PyFloat (Finite 0)"
  proof
    assume "p1 ''total_join_time'' = Some NoneVal"
    then show ?thesis
      by (simp add: activity_score_duration_not_number dict_get_def)
  next
    assume "p1 ''average_volume'' = Some NoneVal"
    then show ?thesis
      by (simp add: activity_score_volume_not_number dict_get_def)
  qed
next
  assume a: "p1 ''speak_time'' = Some NoneVal \<and>
    ((p1 ''total_join_time'' = Some (PyInt t) \<and> 0 < t) \<or>
     (p1 ''total_join_time'' = Some (PyFloat (Finite y)) \<and> 0 < y) \<or>
     p1 ''total_join_time'' = None)"
  then have "dict_get p1 ''speak_time'' (PyInt 0) = NoneVal"
    by (simp add: dict_get_def)
  moreover from a have "py_gt (dict_get p1 ''total_join_time'' (PyInt 1)) (PyInt 0) = Inr True"
    using py_gt_positive [of p1 t y] by blast
  ultimately show "calculate_activity_score p1 = PyFloat (Finite 0)"
    by (rule activity_score_speak_not_number)
next
  assume "(p1 ''total_join_time'' = Some (PyInt t) \<and> t \<le> 0) \<or>
    (p1 ''total_join_time'' = Some (PyFloat (Finite y)) \<and> y \<le> 0)"
  then have "py_gt (dict_get p1 ''total_join_time'' (PyInt 1)) (PyInt 0) = Inr False"
    by (rule py_gt_not_positive)
  then show "calculate_activity_score (p1(''speak_time'' \<mapsto> v)) = calculate_activity_score p1"
    by (rule activity_score_speak_not_read)
next
  assume "p1 ''total_join_time'' = Some (PyFloat f) \<and> p2 ''total_join_time'' = Some (PyFloat g) \<and>
    (f = NaN \<or> g = NaN)"
  then have "dict_get p1 ''total_join_time'' (PyInt 0) = PyFloat f"
    and "dict_get p2 ''total_join_time'' (PyInt 0) = PyFloat g" and "f = NaN \<or> g = NaN"
    by (simp_all add: dict_get_def)
  then show "determine_winner cfg (Some TIMING) p1 p2 = (Some 2, LOSS, WIN)"
    by (simp add: determine_winner_def analyze_timing_fight_nan)
qed

text \<open>
  The theorem at a timing contest whose first bag is empty and whose second bag has a
  presence duration of 100: the missing entry reads as 0 and participant 2 wins; at a
  timing contest with a presence duration that is not a number, and at one with a
  presence duration that is NaN; at a bag whose amplitude is not a number, whose
  activity score is 0.0; and at a bag whose presence duration is 0, whose score is the
  same whether the active time is 0 or not a number.
\<close>

theorem determine_winner_total_witness:
  "determine_winner example_config (Some TIMING) Map.empty [''total_join_time'' \<mapsto> PyInt 100]
     = determine_winner example_config (Some TIMING)
         [''total_join_time'' \<mapsto> PyInt 0] [''total_join_time'' \<mapsto> PyInt 100] \<and>
   determine_winner example_config (Some TIMING)
     [''total_join_time'' \<mapsto> PyInt 100] [''total_join_time'' \<mapsto> NoneVal] = (None, DRAW, DRAW) \<and>
   determine_winner example_config (Some TIMING)
     [''total_join_time'' \<mapsto> PyFloat NaN] [''total_join_time'' \<mapsto> PyFloat (Finite 100)]
     = (Some 2, LOSS, WIN) \<and>
   calculate_activity_score
     [''speak_time'' \<mapsto> PyInt 30, ''total_join_time'' \<mapsto> PyInt 60, ''average_volume'' \<mapsto> NoneVal]
     = PyFloat (Finite 0) \<and>
   calculate_activity_score
     ([''speak_time'' \<mapsto> PyInt 0, ''total_join_time'' \<mapsto> PyInt 0, ''average_volume'' \<mapsto> PyInt 5000]
        (''speak_time'' \<mapsto> NoneVal))
     = calculate_activity_score
         [''speak_time'' \<mapsto> PyInt 0, ''total_join_time'' \<mapsto> PyInt 0, ''average_volume'' \<mapsto> PyInt 5000]"
proof -
  let ?e = "Map.empty :: metrics"
  let ?m100 = "[''total_join_time'' \<mapsto> PyInt 100]"
  let ?mnone = "[''total_join_time'' \<mapsto> NoneVal]"
  let ?mnan = "[''total_join_time'' \<mapsto> PyFloat NaN]"
  let ?mf = "[''total_join_time'' \<mapsto> PyFloat (Finite 100)]"
  let ?mv = "[''speak_time'' \<mapsto> PyInt 30, ''total_join_time'' \<mapsto> PyInt 60,
              ''average_volume'' \<mapsto> NoneVal]"
  let ?mz = "[''speak_time'' \<mapsto> PyInt 0, ''total_join_time'' \<mapsto> PyInt 0,
              ''average_volume'' \<mapsto> PyInt 5000]"
  note t1 = determine_winner_total [of example_config None ?e ?m100 0 0 NoneVal NaN NaN]
  note t2 = determine_winner_total [of example_config None ?m100 ?mnone 0 0 NoneVal NaN NaN]
  note t3 = determine_winner_total [of example_config None ?mnan ?mf 0 0 NoneVal NaN "Finite 100"]
  note t4 = determine_winner_total [of example_config None ?mv ?e 60 0 NoneVal NaN NaN]
  note t5 = determine_winner_total [of example_config None ?mz ?e 0 0 NoneVal NaN NaN]
  have a: "determine_winner example_config (Some TIMING) ?e ?m100
     = determine_winner example_config (Some TIMING) (?e(''total_join_time'' \<mapsto> PyInt 0)) ?m100"
    by (rule t1 [THEN conjunct2, THEN conjunct2, THEN conjunct1, THEN mp]) simp
  have b: "determine_winner example_config (Some TIMING) ?m100 ?mnone = (None, DRAW, DRAW)"
    by (rule t2 [THEN conjunct2, THEN conjunct2, THEN conjunct2, THEN conjunct2,
          THEN conjunct2, THEN conjunct2, THEN conjunct2, THEN conjunct1, THEN mp]) simp
  have c: "determine_winner example_config (Some TIMING) ?mnan ?mf = (Some 2, LOSS, WIN)"
    by (rule t3 [THEN conjunct2, THEN conjunct2, THEN conjunct2, THEN conjunct2,
          THEN conjunct2, THEN conjunct2, THEN conjunct2, THEN conjunct2, THEN conjunct2,
          THEN conjunct2, THEN conjunct2, THEN mp]) simp
  have d: "calculate_activity_score ?mv = PyFloat (Finite 0)"
    by (rule t4 [THEN conjunct2, THEN conjunct2, THEN conjunct2, THEN conjunct2,
          THEN conjunct2, THEN conjunct2, THEN conjunct2, THEN conjunct2, THEN conjunct1,
          THEN mp]) simp
  have e: "calculate_activity_score (?mz(''speak_time'' \<mapsto> NoneVal))
     = calculate_activity_score ?mz"
    by (rule t5 [THEN conjunct2, THEN conjunct2, THEN conjunct2, THEN conjunct2,
          THEN conjunct2, THEN conjunct2, THEN conjunct2, THEN conjunct2, THEN conjunct2,
          THEN conjunct2, THEN conjunct1, THEN mp]) simp
  from a b c d e show ?thesis by simp
qed

text \<open>
  Claim C5 as stated fails where it says that a malformed metric is treated as 0. In
  a timing contest of a presence duration that is not a number against a presence
  duration of 100, the code returns a draw; with that entry read as 0 it returns a win
  for participant 2.
\<close>

theorem malformed_metric_counterexample:
  "determine_winner example_config (Some TIMING)
     [''total_join_time'' \<mapsto> NoneVal] [''total_join_time'' \<mapsto> PyInt 100] = (None, DRAW, DRAW) \<and>
   determine_winner example_config (Some TIMING)
     [''total_join_time'' \<mapsto> PyInt 0] [''total_join_time'' \<mapsto> PyInt 100] = (Some 2, LOSS, WIN)"
  by (simp add: determine_winner_def analyze_timing_fight_ints [of _ 0 _ 100]
      analyze_timing_fight_not_number dict_get_def)

section \<open>Persistence: what each operation changes\<close>

lemma map_of_update_one:
  "map_of (update_one c k f) k' = (if k' = k then map_option f (map_of c k) else map_of c k')"
  by (induction c) auto

lemma finish_fight_collections:
  "challenges (finish_fight d fid w r1 r2 now) = challenges d"
  "users (finish_fight d fid w r1 r2 now) = users d"
  by (simp_all add: finish_fight_def)

lemma update_challenge_status_collections:
  "fights (update_challenge_status d cid st) = fights d"
  "users (update_challenge_status d cid st) = users d"
  by (simp_all add: update_challenge_status_def)

lemma update_user_stats_collections:
  "fights (update_user_stats d t stats) = fights d"
  "challenges (update_user_stats d t stats) = challenges d"
  by (simp_all add: update_user_stats_def)

lemma update_result_stats_collections:
  "fights (update_result_stats d ch r1 r2) = fights d"
  "challenges (update_result_stats d ch r1 r2) = challenges d"
  by (simp_all add: update_result_stats_def update_user_stats_collections)

lemma update_fight_metrics_collections:
  "challenges (update_fight_metrics d fid p m) = challenges d"
  "users (update_fight_metrics d fid p m) = users d"
  by (simp_all add: update_fight_metrics_def split: option.splits)

lemma get_challenge_update_status:
  "get_challenge (update_challenge_status d cid st) cid' =
     (if cid' = cid then map_option (\<lambda>c. c\<lparr>status := st\<rparr>) (get_challenge d cid)
      else get_challenge d cid')"
  by (simp add: get_challenge_def update_challenge_status_def map_of_update_one)

lemma get_fight_finish_fight:
  "get_fight (finish_fight d fid w r1 r2 now) fid' =
     (if fid' = fid
      then map_option (\<lambda>f. f\<lparr>winner_id := w, participant1_result := r1,
                              participant2_result := r2, ended_at := now\<rparr>) (get_fight d fid)
      else get_fight d fid')"
  by (simp add: get_fight_def finish_fight_def map_of_update_one)

lemma persisted_outcome_update_fight_metrics:
  "persisted_outcome (update_fight_metrics d fid p m) fid' = persisted_outcome d fid'"
  by (cases "map_of (fights d) fid'")
    (auto simp: persisted_outcome_def update_fight_metrics_def get_fight_def map_of_update_one
      split: option.splits)

section \<open>Orchestrator: what each step changes\<close>

lemma start_recording_fields:
  "db (start_recording s fid v) = db s"
  "active_challenges (start_recording s fid v) = active_challenges s"
  "discarded (start_recording s fid v) = discarded s"
  "calls (start_recording s fid v) = calls s @ [StartRecording fid v]"
  by (simp_all add: start_recording_def)

lemma stop_recording_fields:
  "db (stop_recording s fid) = db s"
  "active_challenges (stop_recording s fid) = active_challenges s"
  "discarded (stop_recording s fid) = discarded s"
  "calls (stop_recording s fid) = calls s @ [StopRecording fid]"
  by (simp_all add: stop_recording_def)

lemma cleanup_fight_fields:
  "db (cleanup_fight s p1 p2) = db s"
  "active_challenges (cleanup_fight s p1 p2) = active_challenges s"
  "discarded (cleanup_fight s p1 p2) = discarded s"
  "calls (cleanup_fight s p1 p2) = calls s @ [CleanupFight p1 p2]"
  by (simp_all add: cleanup_fight_def)

lemma transition_and_delete_fields:
  "db (transition_and_delete s cid t now) = db s"
  "calls (transition_and_delete s cid t now) = calls s"
  "active_recordings (transition_and_delete s cid t now) = active_recordings s"
  "fight_tasks (transition_and_delete s cid t now) = fight_tasks s"
  by (simp_all add: transition_and_delete_def split: option.splits)

lemma transition_and_delete_table:
  "active_challenges (transition_and_delete s cid t now) cid = None"
  by (simp add: transition_and_delete_def split: option.splits)

lemma transition_and_delete_discarded:
  "active_challenges s cid = Some m \<Longrightarrow>
     discarded (transition_and_delete s cid t now) cid = Some (snd (transition_to m t now))"
  by (simp add: transition_and_delete_def)

lemma sampling_loop_outcome:
  "(sampling_loop cfg ch fid tks n m1 m2 d = Loop_exit n' m1' m2' d' \<longrightarrow>
      persisted_outcome d' fid' = persisted_outcome d fid' \<and> users d' = users d
      \<and> challenges d' = challenges d) \<and>
   (sampling_loop cfg ch fid tks n m1 m2 d = Loop_cancelled d' \<longrightarrow>
      persisted_outcome d' fid' = persisted_outcome d fid' \<and> users d' = users d
      \<and> challenges d' = challenges d) \<and>
   (sampling_loop cfg ch fid tks n m1 m2 d = Loop_unanswered d' \<longrightarrow>
      persisted_outcome d' fid' = persisted_outcome d fid' \<and> users d' = users d
      \<and> challenges d' = challenges d)"
proof (induction cfg ch fid tks n m1 m2 d rule: sampling_loop.induct)
  case (1 cfg challenge fid fight_duration m1 m2 d)
  then show ?case by simp
next
  case (2 cfg challenge fid rest fight_duration m1 m2 d)
  then show ?case by simp
next
  case (3 cfg challenge fid current_metrics active rest fight_duration m1 m2 d)
  show ?case
  proof (cases "fight_duration < max_fight_duration cfg")
    case False
    then show ?thesis by simp
  next
    case running: True
    show ?thesis
    proof (cases current_metrics)
      case None
      with running 3 show ?thesis by (cases active) simp_all
    next
      case (Some c)
      obtain c1 c2 where c: "c = (c1, c2)" by (cases c)
      with running Some 3 show ?thesis
        by (cases active)
          (auto simp: persisted_outcome_update_fight_metrics update_fight_metrics_collections)
    qed
  qed
qed

section \<open>The fight record that \<^verbatim>\<open>start_fight\<close> builds\<close>



section \<open>Finalization: the decision and what is persisted\<close>

lemma decide_results_timing:
  assumes "exact_value (dict_get m1 ''join_time'' (PyInt 0)) = Inr (Finite a)"
    and "exact_value (dict_get m2 ''join_time'' (PyInt 0)) = Inr (Finite b)"
  shows "decide_results (Some ch) (Some TIMING) m1 m2 =
     Inr (if a > b then (Some (challenger_id ch), WIN, LOSS)
          else if b > a then (Some (opponent_id ch), LOSS, WIN)
          else (None, DRAW, DRAW))"
  using assms by (simp add: decide_results_def py_gt_def try_bind_def attr_def)

lemma py_gt_ints: "py_gt (PyInt x) (PyInt y) = Inr (y < x)"
  by (simp add: py_gt_def try_bind_def)

lemma decide_results_volume_ints:
  assumes "dict_get m1 ''speak_time'' (PyInt 0) = PyInt t1"
    and "dict_get m1 ''volume_sum'' (PyInt 0) = PyInt v1"
    and "dict_get m2 ''speak_time'' (PyInt 0) = PyInt t2"
    and "dict_get m2 ''volume_sum'' (PyInt 0) = PyInt v2"
  shows "decide_results (Some ch) (Some VOLUME) m1 m2 =
     Inr (if t1 * v1 > t2 * v2 then (Some (challenger_id ch), WIN, LOSS)
          else if t2 * v2 > t1 * v1 then (Some (opponent_id ch), LOSS, WIN)
          else (None, DRAW, DRAW))"
  using assms by (simp add: decide_results_def py_gt_ints try_bind_def attr_def)

lemma decide_results_volume_floats:
  assumes "dict_get m1 ''speak_time'' (PyInt 0) = PyFloat (Finite x1)"
    and "dict_get m1 ''volume_sum'' (PyInt 0) = PyFloat (Finite y1)"
    and "dict_get m2 ''speak_time'' (PyInt 0) = PyFloat (Finite x2)"
    and "dict_get m2 ''volume_sum'' (PyInt 0) = PyFloat (Finite y2)"
  shows "decide_results (Some ch) (Some VOLUME) m1 m2 =
     Inr (if fl_lt (round_double (x2 * y2)) (round_double (x1 * y1))
          then (Some (challenger_id ch), WIN, LOSS)
          else if fl_lt (round_double (x1 * y1)) (round_double (x2 * y2))
          then (Some (opponent_id ch), LOSS, WIN)
          else (None, DRAW, DRAW))"
  using assms by (simp add: decide_results_def py_gt_def try_bind_def attr_def float_op_def)

lemma decide_results_volume_computed:
  assumes "py_mul (dict_get m1 ''speak_time'' (PyInt 0)) (dict_get m1 ''volume_sum'' (PyInt 0))
       = Inr a1"
    and "py_mul (dict_get m2 ''speak_time'' (PyInt 0)) (dict_get m2 ''volume_sum'' (PyInt 0))
       = Inr a2"
    and "py_gt a1 a2 = Inr g1"
    and "py_gt a2 a1 = Inr g2"
  shows "decide_results (Some ch) (Some VOLUME) m1 m2 =
     Inr (if g1 then (Some (challenger_id ch), WIN, LOSS)
          else if g2 then (Some (opponent_id ch), LOSS, WIN)
          else (None, DRAW, DRAW))"
  using assms by (simp add: decide_results_def try_bind_def attr_def)

lemma decide_results_status:
  "decide_results (Some (ch\<lparr>status := st\<rparr>)) ft m1 m2 = decide_results (Some ch) ft m1 m2"
proof (cases ft)
  case None
  then show ?thesis by (simp add: decide_results_def)
next
  case (Some t)
  then show ?thesis by (cases t) (simp_all add: decide_results_def attr_def cong: if_cong)
qed

lemma end_fight_with_results_success:
  assumes "get_challenge (db s) cid = Some ch"
    and "decide_results (Some ch) ft m1 m2 = Inr (w, r1, r2)"
  shows "db (end_fight_with_results s cid fid n m1 m2 ft now) =
       update_challenge_status
         (update_result_stats (finish_fight (db s) fid w r1 r2 now) ch r1 r2) cid COMPLETED"
    and "calls (end_fight_with_results s cid fid n m1 m2 ft now) =
       calls s @ [StopRecording fid, CleanupFight (challenger_id ch) (opponent_id ch)]"
    and "active_challenges (end_fight_with_results s cid fid n m1 m2 ft now) cid = None"
  using assms
  by (simp_all add: end_fight_with_results_def Let_def stop_recording_fields
      cleanup_fight_fields transition_and_delete_fields transition_and_delete_table)

lemma end_fight_with_results_outcome:
  assumes "get_challenge (db s) cid = Some ch"
    and "decide_results (Some ch) ft m1 m2 = Inr (w, r1, r2)"
    and "get_fight (db s) fid = Some f"
  shows "persisted_outcome (db (end_fight_with_results s cid fid n m1 m2 ft now)) fid =
     Some (w, r1, r2, duration f, group_call_id f)"
  using assms
  by (simp add: end_fight_with_results_success(1) persisted_outcome_def get_fight_def
      update_challenge_status_collections update_result_stats_collections
      finish_fight_def map_of_update_one)

lemma end_fight_with_results_decided:
  assumes "get_challenge (db s) cid = Some ch"
    and "get_fight (db s) fid = Some f"
    and "decide_results (Some ch) ft m1 m2 =
       Inr (if c1 then (Some (challenger_id ch), WIN, LOSS)
            else if c2 then (Some (opponent_id ch), LOSS, WIN)
            else (None, DRAW, DRAW))"
  shows "persisted_outcome (db (end_fight_with_results s cid fid n m1 m2 ft now)) fid =
     Some (if c1 then (Some (challenger_id ch), WIN, LOSS, duration f, group_call_id f)
           else if c2 then (Some (opponent_id ch), LOSS, WIN, duration f, group_call_id f)
           else (None, DRAW, DRAW, duration f, group_call_id f))"
proof (cases c1)
  case True
  with assms show ?thesis
    by (simp add: end_fight_with_results_outcome [of s cid ch _ m1 m2 _ _ _ fid f])
next
  case False
  with assms show ?thesis
    by (cases c2)
      (simp_all add: end_fight_with_results_outcome [of s cid ch _ m1 m2 _ _ _ fid f])
qed

text \<open>
  Claim C2, as the code has it. \<^verbatim>\<open>_end_fight_with_results\<close> does not call the
  winner detector. For a challenge and a fight that the store holds, and bags whose
  entries are numbers, the winner and the results that it persists are those of its own
  comparison. In a TIMING contest it compares the \<^verbatim>\<open>join_time\<close> entries, finite
  numbers (integers or floats) of values a and b: the challenger wins if a > b, the
  opponent if b > a, and equal values are a draw; there is no band of 5 units. In a
  VOLUME contest it compares the products of \<^verbatim>\<open>speak_time\<close> and
  \<^verbatim>\<open>volume_sum\<close> in the same way: the exact products of integer entries, and the
  products of float entries as the multiplication of floats computes them, rounded to
  doubles; in general, the two products that the multiplication returns, compared by
  \<^verbatim>\<open>>\<close>. The duration and the session reference of the fight stay as they were.
\<close>

theorem end_fight_with_results_inline_decision:
  assumes "get_challenge (db s) cid = Some ch"
    and "get_fight (db s) fid = Some f"
  shows "(exact_value (dict_get m1 ''join_time'' (PyInt 0)) = Inr (Finite a) \<and>
     exact_value (dict_get m2 ''join_time'' (PyInt 0)) = Inr (Finite b) \<longrightarrow>
       persisted_outcome (db (end_fight_with_results s cid fid n m1 m2 (Some TIMING) now)) fid =
         Some (if a > b then (Some (challenger_id ch), WIN, LOSS, duration f, group_call_id f)
               else if b > a then (Some (opponent_id ch), LOSS, WIN, duration f, group_call_id f)
               else (None, DRAW, DRAW, duration f, group_call_id f))) \<and>
    (dict_get m1 ''speak_time'' (PyInt 0) = PyInt t1 \<and>
     dict_get m1 ''volume_sum'' (PyInt 0) = PyInt v1 \<and>
     dict_get m2 ''speak_time'' (PyInt 0) = PyInt t2 \<and>
     dict_get m2 ''volume_sum'' (PyInt 0) = PyInt v2 \<longrightarrow>
       persisted_outcome (db (end_fight_with_results s cid fid n m1 m2 (Some VOLUME) now)) fid =
         Some (if t1 * v1 > t2 * v2
               then (Some (challenger_id ch), WIN, LOSS, duration f, group_call_id f)
               else if t2 * v2 > t1 * v1
               then (Some (opponent_id ch), LOSS, WIN, duration f, group_call_id f)
               else (None, DRAW, DRAW, duration f, group_call_id f))) \<and>
    (dict_get m1 ''speak_time'' (PyInt 0) = PyFloat (Finite x1) \<and>
     dict_get m1 ''volume_sum'' (PyInt 0) = PyFloat (Finite y1) \<and>
     dict_get m2 ''speak_time'' (PyInt 0) = PyFloat (Finite x2) \<and>
     dict_get m2 ''volume_sum'' (PyInt 0) = PyFloat (Finite y2) \<longrightarrow>
       persisted_outcome (db (end_fight_with_results s cid fid n m1 m2 (Some VOLUME) now)) fid =
         Some (if fl_lt (round_double (x2 * y2)) (round_double (x1 * y1))
               then (Some (challenger_id ch), WIN, LOSS, duration f, group_call_id f)
               else if fl_lt (round_double (x1 * y1)) (round_double (x2 * y2))
               then (Some (opponent_id ch), LOSS, WIN, duration f, group_call_id f)
               else (None, DRAW, DRAW, duration f, group_call_id f))) \<and>
    (py_mul (dict_get m1 ''speak_time'' (PyInt 0)) (dict_get m1 ''volume_sum'' (PyInt 0)) = Inr a1 \<and>
     py_mul (dict_get m2 ''speak_time'' (PyInt 0)) (dict_get m2 ''volume_sum'' (PyInt 0)) = Inr a2 \<and>
     py_gt a1 a2 = Inr g1 \<and> py_gt a2 a1 = Inr g2 \<longrightarrow>
       persisted_outcome (db (end_fight_with_results s cid fid n m1 m2 (Some VOLUME) now)) fid =
         Some (if g1 then (Some (challenger_id ch), WIN, LOSS, duration f, group_call_id f)
               else if g2 then (Some (opponent_id ch), LOSS, WIN, duration f, group_call_id f)
               else (None, DRAW, DRAW, duration f, group_call_id f)))"
proof (intro conjI impI)
  assume "exact_value (dict_get m1 ''join_time'' (PyInt 0)) = Inr (Finite a) \<and>
     exact_value (dict_get m2 ''join_time'' (PyInt 0)) = Inr (Finite b)"
  then have "decide_results (Some ch) (Some TIMING) m1 m2 =
     Inr (if a > b then (Some (challenger_id ch), WIN, LOSS)
          else if b > a then (Some (opponent_id ch), LOSS, WIN)
          else (None, DRAW, DRAW))"
    by (simp add: decide_results_timing)
  with assms
  show "persisted_outcome (db (end_fight_with_results s cid fid n m1 m2 (Some TIMING) now)) fid =
         Some (if a > b then (Some (challenger_id ch), WIN, LOSS, duration f, group_call_id f)
               else if b > a then (Some (opponent_id ch), LOSS, WIN, duration f, group_call_id f)
               else (None, DRAW, DRAW, duration f, group_call_id f))"
    by (rule end_fight_with_results_decided)
next
  assume "dict_get m1 ''speak_time'' (PyInt 0) = PyInt t1 \<and>
     dict_get m1 ''volume_sum'' (PyInt 0) = PyInt v1 \<and>
     dict_get m2 ''speak_time'' (PyInt 0) = PyInt t2 \<and>
     dict_get m2 ''volume_sum'' (PyInt 0) = PyInt v2"
  then have "decide_results (Some ch) (Some VOLUME) m1 m2 =
     Inr (if t1 * v1 > t2 * v2 then (Some (challenger_id ch), WIN, LOSS)
          else if t2 * v2 > t1 * v1 then (Some (opponent_id ch), LOSS, WIN)
          else (None, DRAW, DRAW))"
    by (simp add: decide_results_volume_ints)
  with assms
  show "persisted_outcome (db (end_fight_with_results s cid fid n m1 m2 (Some VOLUME) now)) fid =
         Some (if t1 * v1 > t2 * v2
               then (Some (challenger_id ch), WIN, LOSS, duration f, group_call_id f)
               else if t2 * v2 > t1 * v1
               then (Some (opponent_id ch), LOSS, WIN, duration f, group_call_id f)
               else (None, DRAW, DRAW, duration f, group_call_id f))"
    by (rule end_fight_with_results_decided)
next
  assume "dict_get m1 ''speak_time'' (PyInt 0) = PyFloat (Finite x1) \<and>
     dict_get m1 ''volume_sum'' (PyInt 0) = PyFloat (Finite y1) \<and>
     dict_get m2 ''speak_time'' (PyInt 0) = PyFloat (Finite x2) \<and>
     dict_get m2 ''volume_sum'' (PyInt 0) = PyFloat (Finite y2)"
  then have "decide_results (Some ch) (Some VOLUME) m1 m2 =
     Inr (if fl_lt (round_double (x2 * y2)) (round_double (x1 * y1))
          then (Some (challenger_id ch), WIN, LOSS)
          else if fl_lt (round_double (x1 * y1)) (round_double (x2 * y2))
          then (Some (opponent_id ch), LOSS, WIN)
          else (None, DRAW, DRAW))"
    by (simp add: decide_results_volume_floats)
  with assms
  show "persisted_outcome (db (end_fight_with_results s cid fid n m1 m2 (Some VOLUME) now)) fid =
         Some (if fl_lt (round_double (x2 * y2)) (round_double (x1 * y1))
               then (Some (challenger_id ch), WIN, LOSS, duration f, group_call_id f)
               else if fl_lt (round_double (x1 * y1)) (round_double (x2 * y2))
               then (Some (opponent_id ch), LOSS, WIN, duration f, group_call_id f)
               else (None, DRAW, DRAW, duration f, group_call_id f))"
    by (rule end_fight_with_results_decided)
next
  assume "py_mul (dict_get m1 ''speak_time'' (PyInt 0)) (dict_get m1 ''volume_sum'' (PyInt 0))
       = Inr a1 \<and>
     py_mul (dict_get m2 ''speak_time'' (PyInt 0)) (dict_get m2 ''volume_sum'' (PyInt 0)) = Inr a2 \<and>
     py_gt a1 a2 = Inr g1 \<and> py_gt a2 a1 = Inr g2"
  then have "decide_results (Some ch) (Some VOLUME) m1 m2 =
     Inr (if g1 then (Some (challenger_id ch), WIN, LOSS)
          else if g2 then (Some (opponent_id ch), LOSS, WIN)
          else (None, DRAW, DRAW))"
    by (simp add: decide_results_volume_computed)
  with assms
  show "persisted_outcome (db (end_fight_with_results s cid fid n m1 m2 (Some VOLUME) now)) fid =
         Some (if g1 then (Some (challenger_id ch), WIN, LOSS, duration f, group_call_id f)
               else if g2 then (Some (opponent_id ch), LOSS, WIN, duration f, group_call_id f)
               else (None, DRAW, DRAW, duration f, group_call_id f))"
    by (rule end_fight_with_results_decided)
qed

lemma example_manager_lookup:
  "get_challenge (db (example_manager st)) ''c1'' = Some example_challenge"
  "get_fight (db (example_manager st)) ''f1'' = Some example_fight"
  by (simp_all add: example_manager_def example_db_def get_challenge_def get_fight_def)

lemma initial_activity:
  "py_mul (dict_get initial_metrics ''speak_time'' (PyInt 0))
     (dict_get initial_metrics ''volume_sum'' (PyInt 0)) = Inr (PyFloat (Finite 0))"
  by (simp add: initial_metrics_def dict_get_def float_op_def float_of_int_0 round_double_zero
      try_bind_def)

text \<open>
  The theorem at the example manager, in a TIMING contest with \<^verbatim>\<open>join_time\<close> 7 for
  the challenger (user 101) and 3 for the opponent: the challenger is persisted as the
  winner, and the duration stays 0. And in a VOLUME contest with the bags that the
  monitoring routine starts from, an integer 0 for \<^verbatim>\<open>speak_time\<close> and a float 0.0
  for \<^verbatim>\<open>volume_sum\<close>: both products are 0.0 and a draw is persisted.
\<close>

theorem end_fight_with_results_inline_decision_witness:
  "get_challenge (db (example_manager FIGHT_ACTIVE)) ''c1'' = Some example_challenge \<and>
   get_fight (db (example_manager FIGHT_ACTIVE)) ''f1'' = Some example_fight \<and>
   persisted_outcome
     (db (end_fight_with_results (example_manager FIGHT_ACTIVE) ''c1'' ''f1'' 10
            [''join_time'' \<mapsto> PyInt 7] [''join_time'' \<mapsto> PyInt 3] (Some TIMING) 5)) ''f1''
     = Some (Some 101, WIN, LOSS, 0, []) \<and>
   persisted_outcome
     (db (end_fight_with_results (example_manager FIGHT_ACTIVE) ''c1'' ''f1'' 10
            initial_metrics initial_metrics (Some VOLUME) 5)) ''f1''
     = Some (None, DRAW, DRAW, 0, [])"
proof -
  note inst = end_fight_with_results_inline_decision [of "example_manager FIGHT_ACTIVE" "''c1''"
      example_challenge "''f1''" example_fight "[''join_time'' \<mapsto> PyInt 7]" 7
      "[''join_time'' \<mapsto> PyInt 3]" 3 10 5, OF example_manager_lookup]
  note inst' = end_fight_with_results_inline_decision [where s = "example_manager FIGHT_ACTIVE"
      and cid = "''c1''" and ch = example_challenge and fid = "''f1''" and f = example_fight
      and ?m1.0 = initial_metrics and ?m2.0 = initial_metrics and n = 10 and now = 5
      and ?a1.0 = "PyFloat (Finite 0)" and ?a2.0 = "PyFloat (Finite 0)"
      and ?g1.0 = False and ?g2.0 = False, OF example_manager_lookup]
  have "persisted_outcome
     (db (end_fight_with_results (example_manager FIGHT_ACTIVE) ''c1'' ''f1'' 10
            initial_metrics initial_metrics (Some VOLUME) 5)) ''f1''
     = Some (if False
             then (Some (challenger_id example_challenge), WIN, LOSS,
                   duration example_fight, group_call_id example_fight)
             else if False
             then (Some (opponent_id example_challenge), LOSS, WIN,
                   duration example_fight, group_call_id example_fight)
             else (None, DRAW, DRAW, duration example_fight, group_call_id example_fight))"
    by (rule inst' [THEN conjunct2, THEN conjunct2, THEN conjunct2, THEN mp])
      (simp add: initial_activity py_gt_def try_bind_def)
  then have draw: "persisted_outcome
     (db (end_fight_with_results (example_manager FIGHT_ACTIVE) ''c1'' ''f1'' 10
            initial_metrics initial_metrics (Some VOLUME) 5)) ''f1''
     = Some (None, DRAW, DRAW, 0, [])"
    by (simp add: example_fight_def)
  have "persisted_outcome
     (db (end_fight_with_results (example_manager FIGHT_ACTIVE) ''c1'' ''f1'' 10
            [''join_time'' \<mapsto> PyInt 7] [''join_time'' \<mapsto> PyInt 3] (Some TIMING) 5)) ''f1''
     = Some (if (7::rat) > 3
             then (Some (challenger_id example_challenge), WIN, LOSS,
                   duration example_fight, group_call_id example_fight)
             else if (3::rat) > 7
             then (Some (opponent_id example_challenge), LOSS, WIN,
                   duration example_fight, group_call_id example_fight)
             else (None, DRAW, DRAW, duration example_fight, group_call_id example_fight))"
    by (rule inst [THEN conjunct1, THEN mp]) (simp add: dict_get_def)
  with draw show ?thesis
    by (simp add: example_manager_lookup example_challenge_def example_fight_def)
qed

text \<open>
  Claim C2 as stated fails. With \<^verbatim>\<open>join_time\<close> and \<^verbatim>\<open>total_join_time\<close> 100 for
  participant 1 and 103 for participant 2 in a TIMING contest, the orchestrator
  persists a win for participant 2 (user 202), and \<^verbatim>\<open>determine_winner\<close> on the same
  contest type and bags returns a draw.
\<close>

theorem orchestrator_differs_from_detector_counterexample:
  "persisted_outcome
     (db (end_fight_with_results (example_manager FIGHT_ACTIVE) ''c1'' ''f1'' 10
            [''join_time'' \<mapsto> PyInt 100, ''total_join_time'' \<mapsto> PyInt 100]
            [''join_time'' \<mapsto> PyInt 103, ''total_join_time'' \<mapsto> PyInt 103] (Some TIMING) 5)) ''f1''
     = Some (Some 202, LOSS, WIN, 0, []) \<and>
   determine_winner example_config (Some TIMING)
     [''join_time'' \<mapsto> PyInt 100, ''total_join_time'' \<mapsto> PyInt 100]
     [''join_time'' \<mapsto> PyInt 103, ''total_join_time'' \<mapsto> PyInt 103] = (None, DRAW, DRAW)"
proof -
  let ?m1 = "[''join_time'' \<mapsto> PyInt 100, ''total_join_time'' \<mapsto> PyInt 100]"
  let ?m2 = "[''join_time'' \<mapsto> PyInt 103, ''total_join_time'' \<mapsto> PyInt 103]"
  have "decide_results (Some example_challenge) (Some TIMING) ?m1 ?m2 =
      Inr (Some 202, LOSS, WIN)"
    by (simp add: decide_results_timing [of _ 100 _ 103] dict_get_def example_challenge_def)
  then have persisted: "persisted_outcome
     (db (end_fight_with_results (example_manager FIGHT_ACTIVE) ''c1'' ''f1'' 10
            ?m1 ?m2 (Some TIMING) 5)) ''f1'' = Some (Some 202, LOSS, WIN, 0, [])"
    by (simp add: end_fight_with_results_outcome [of _ _ example_challenge _ _ _ _ _ _ _
          example_fight] example_manager_lookup example_fight_def)
  have detector: "determine_winner example_config (Some TIMING) ?m1 ?m2 = (None, DRAW, DRAW)"
    by (simp add: determine_winner_def analyze_timing_fight_ints [of _ 100 _ 103]
        dict_get_def)
  from persisted detector show ?thesis by simp
qed

section \<open>Finalization: user statistics\<close>

lemma user_counters_update_user_stats:
  "user_counters (update_user_stats d t stats) t' =
     (if t' = t
      then map_option (\<lambda>u. (total_fights u, wins u, losses u, draws u))
             (map_option (\<lambda>u. fold inc_stat stats u) (map_of (users d) t))
      else user_counters d t')"
  by (simp add: user_counters_def update_user_stats_def map_of_update_one)

lemma user_counters_update_result_stats:
  assumes "challenger_id ch \<noteq> opponent_id ch"
  shows "user_counters (update_result_stats d ch r1 r2) t =
     (if t = challenger_id ch then
        map_option (\<lambda>(n, w, l, dr).
          if r1 = WIN then (n + 1, w + 1, l, dr)
          else if r2 = WIN then (n + 1, w, l + 1, dr)
          else (n + 1, w, l, dr + 1)) (user_counters d t)
      else if t = opponent_id ch then
        map_option (\<lambda>(n, w, l, dr).
          if r1 = WIN then (n + 1, w, l + 1, dr)
          else if r2 = WIN then (n + 1, w + 1, l, dr)
          else (n + 1, w, l, dr + 1)) (user_counters d t)
      else user_counters d t)"
  using assms
  by (cases "map_of (users d) t")
    (auto simp: update_result_stats_def user_counters_def update_user_stats_def
      map_of_update_one)

lemma inc_stat_grows:
  "0 \<le> snd x \<Longrightarrow>
     total_fights u \<le> total_fights (inc_stat x u) \<and> wins u \<le> wins (inc_stat x u) \<and>
     losses u \<le> losses (inc_stat x u) \<and> draws u \<le> draws (inc_stat x u)"
  by (cases x; cases "fst x") auto

lemma fold_inc_stat_grows:
  "\<forall>x \<in> set stats. 0 \<le> snd x \<Longrightarrow>
     total_fights u \<le> total_fights (fold inc_stat stats u) \<and>
     wins u \<le> wins (fold inc_stat stats u) \<and>
     losses u \<le> losses (fold inc_stat stats u) \<and>
     draws u \<le> draws (fold inc_stat stats u)"
proof (induction stats arbitrary: u)
  case Nil
  then show ?case by simp
next
  case (Cons x stats)
  from Cons.prems have "0 \<le> snd x" and rest: "\<forall>y \<in> set stats. 0 \<le> snd y"
    by simp_all
  from inc_stat_grows [OF \<open>0 \<le> snd x\<close>, of u] Cons.IH [OF rest, of "inc_stat x u"]
  show ?case by auto
qed

lemma counters_grow_refl: "users d' = users d \<Longrightarrow> counters_grow d d'"
  by (auto simp: counters_grow_def user_counters_def)

lemma counters_grow_trans:
  "counters_grow d d' \<Longrightarrow> counters_grow d' d'' \<Longrightarrow> counters_grow d d''"
  unfolding counters_grow_def
proof (intro allI impI)
  fix t n w l dr
  assume step1: "\<forall>t n w l dr. user_counters d t = Some (n, w, l, dr) \<longrightarrow>
        (\<exists>n' w' l' dr'. user_counters d' t = Some (n', w', l', dr')
           \<and> n \<le> n' \<and> w \<le> w' \<and> l \<le> l' \<and> dr \<le> dr')"
    and step2: "\<forall>t n w l dr. user_counters d' t = Some (n, w, l, dr) \<longrightarrow>
        (\<exists>n' w' l' dr'. user_counters d'' t = Some (n', w', l', dr')
           \<and> n \<le> n' \<and> w \<le> w' \<and> l \<le> l' \<and> dr \<le> dr')"
    and before: "user_counters d t = Some (n, w, l, dr)"
  from step1 before obtain n1 w1 l1 dr1 where
    mid: "user_counters d' t = Some (n1, w1, l1, dr1)"
    and le1: "n \<le> n1" "w \<le> w1" "l \<le> l1" "dr \<le> dr1"
    by blast
  from step2 mid obtain n2 w2 l2 dr2 where
    after: "user_counters d'' t = Some (n2, w2, l2, dr2)"
    and le2: "n1 \<le> n2" "w1 \<le> w2" "l1 \<le> l2" "dr1 \<le> dr2"
    by blast
  from le1 le2 have "n \<le> n2" "w \<le> w2" "l \<le> l2" "dr \<le> dr2"
    by simp_all
  with after
  show "\<exists>n' w' l' dr'. user_counters d'' t = Some (n', w', l', dr')
           \<and> n \<le> n' \<and> w \<le> w' \<and> l \<le> l' \<and> dr \<le> dr'"
    by blast
qed

lemma counters_grow_update_user_stats:
  assumes "\<forall>x \<in> set stats. 0 \<le> snd x"
  shows "counters_grow d (update_user_stats d t stats)"
  unfolding counters_grow_def
proof (intro allI impI)
  fix t' n w l dr
  assume before: "user_counters d t' = Some (n, w, l, dr)"
  then obtain u where u: "map_of (users d) t' = Some u"
    and vals: "n = total_fights u" "w = wins u" "l = losses u" "dr = draws u"
    by (auto simp: user_counters_def)
  show "\<exists>n' w' l' dr'. user_counters (update_user_stats d t stats) t' = Some (n', w', l', dr')
           \<and> n \<le> n' \<and> w \<le> w' \<and> l \<le> l' \<and> dr \<le> dr'"
  proof (cases "t' = t")
    case True
    with u vals fold_inc_stat_grows [OF assms, of u] show ?thesis
      by (simp add: user_counters_update_user_stats)
  next
    case False
    with before show ?thesis
      by (simp add: user_counters_update_user_stats)
  qed
qed

lemma counters_grow_update_result_stats:
  "counters_grow d (update_result_stats d ch r1 r2)"
proof -
  have two: "counters_grow d (update_user_stats (update_user_stats d t1 [(k1, 1), (Stat_total_fights, 1)])
      t2 [(k2, 1), (Stat_total_fights, 1)])" for t1 t2 k1 k2
    by (rule counters_grow_trans [OF counters_grow_update_user_stats
          counters_grow_update_user_stats]) simp_all
  show ?thesis
    by (simp add: update_result_stats_def two)
qed

lemma end_fight_error_db:
  "users (db (end_fight_error s cid fid now)) = users (db s)"
  by (simp add: end_fight_error_def Let_def stop_recording_fields transition_and_delete_fields
      update_challenge_status_collections finish_fight_collections)

lemma end_fight_with_results_counters_grow:
  "counters_grow (db s) (db (end_fight_with_results s cid fid n m1 m2 ft now))"
proof (cases "decide_results (get_challenge (db s) cid) ft m1 m2")
  case (Inl e)
  then show ?thesis
    by (simp add: end_fight_with_results_def Let_def stop_recording_fields
        counters_grow_refl end_fight_error_db)
next
  case (Inr res)
  obtain w r1 r2 where res: "res = (w, r1, r2)" by (cases res)
  show ?thesis
  proof (cases "get_challenge (db s) cid")
    case None
    with Inr res show ?thesis
      by (simp add: end_fight_with_results_def Let_def stop_recording_fields
          counters_grow_refl end_fight_error_db finish_fight_collections)
  next
    case (Some ch)
    with Inr res have db': "db (end_fight_with_results s cid fid n m1 m2 ft now) =
       update_challenge_status
         (update_result_stats (finish_fight (db s) fid w r1 r2 now) ch r1 r2) cid COMPLETED"
      by (simp add: end_fight_with_results_success(1))
    have a: "counters_grow (db s) (finish_fight (db s) fid w r1 r2 now)"
      by (simp add: counters_grow_refl finish_fight_collections)
    have b: "counters_grow (finish_fight (db s) fid w r1 r2 now)
        (update_result_stats (finish_fight (db s) fid w r1 r2 now) ch r1 r2)"
      by (rule counters_grow_update_result_stats)
    have c: "counters_grow (update_result_stats (finish_fight (db s) fid w r1 r2 now) ch r1 r2)
        (update_challenge_status
           (update_result_stats (finish_fight (db s) fid w r1 r2 now) ch r1 r2) cid COMPLETED)"
      by (simp add: counters_grow_refl update_challenge_status_collections)
    from counters_grow_trans [OF counters_grow_trans [OF a b] c] db' show ?thesis
      by simp
  qed
qed

lemma end_fight_with_results_counters:
  assumes "get_challenge (db s) cid = Some ch"
    and "challenger_id ch \<noteq> opponent_id ch"
    and "decide_results (Some ch) ft m1 m2 = Inr (w, r1, r2)"
  shows "user_counters (db (end_fight_with_results s cid fid n m1 m2 ft now)) t =
     user_counters (update_result_stats (db s) ch r1 r2) t"
  using assms
  by (simp add: end_fight_with_results_success(1) user_counters_def
      update_challenge_status_collections update_result_stats_def update_user_stats_def
      finish_fight_collections)

lemma end_fight_with_results_challenge:
  assumes "get_challenge (db s) cid = Some ch"
    and "decide_results (Some ch) ft m1 m2 = Inr (w, r1, r2)"
  shows "get_challenge (db (end_fight_with_results s cid fid n m1 m2 ft now)) cid =
     Some (ch\<lparr>status := COMPLETED\<rparr>)"
proof -
  have "get_challenge (update_result_stats (finish_fight (db s) fid w r1 r2 now) ch r1 r2) cid =
      get_challenge (db s) cid"
    by (simp add: get_challenge_def update_result_stats_collections finish_fight_collections)
  with assms show ?thesis
    by (simp add: end_fight_with_results_success(1) get_challenge_update_status)
qed

lemma end_fight_with_results_counters_step:
  assumes "get_challenge (db s) cid = Some ch"
    and "challenger_id ch \<noteq> opponent_id ch"
    and "decide_results (Some ch) ft m1 m2 = Inr (w, r1, r2)"
    and "user_counters (db s) (challenger_id ch) = Some (n1, w1, l1, d1)"
    and "user_counters (db s) (opponent_id ch) = Some (n2, w2, l2, d2)"
  shows "user_counters (db (end_fight_with_results s cid fid n m1 m2 ft now)) (challenger_id ch) =
       Some (if r1 = WIN then (n1 + 1, w1 + 1, l1, d1)
             else if r2 = WIN then (n1 + 1, w1, l1 + 1, d1)
             else (n1 + 1, w1, l1, d1 + 1))"
    and "user_counters (db (end_fight_with_results s cid fid n m1 m2 ft now)) (opponent_id ch) =
       Some (if r1 = WIN then (n2 + 1, w2, l2 + 1, d2)
             else if r2 = WIN then (n2 + 1, w2 + 1, l2, d2)
             else (n2 + 1, w2, l2, d2 + 1))"
  using assms
  by (simp_all add: end_fight_with_results_counters [OF assms(1-3)]
      user_counters_update_result_stats [OF assms(2)])

lemma end_fight_with_results_users:
  assumes "get_challenge (db s) cid = Some ch"
    and "decide_results (Some ch) ft m1 m2 = Inr (w, r1, r2)"
  shows "user_counters (db (end_fight_with_results s cid fid n m1 m2 ft now)) t =
     user_counters (update_result_stats (db s) ch r1 r2) t"
  using assms
  by (simp add: end_fight_with_results_success(1) user_counters_def
      update_challenge_status_collections update_result_stats_def update_user_stats_def
      finish_fight_collections)

lemma user_counters_update_result_stats_same:
  assumes "challenger_id ch = opponent_id ch"
  shows "user_counters (update_result_stats d ch r1 r2) (challenger_id ch) =
     map_option (\<lambda>(k, a, b, c).
        if r1 = WIN \<or> r2 = WIN then (k + 2, a + 1, b + 1, c) else (k + 2, a, b, c + 2))
       (user_counters d (challenger_id ch))"
  using assms
  by (cases "map_of (users d) (opponent_id ch)")
    (auto simp: update_result_stats_def user_counters_def update_user_stats_def
      map_of_update_one)

text \<open>
  Claim C7, as the code has it. A run of \<^verbatim>\<open>_end_fight_with_results\<close> that reaches
  the statistics update (the challenge is in the store and the decision raises nothing)
  makes one update per participant, and an update changes a user record that exists
  and creates none. With two different participants, a participant who has a user
  record gets one more \<^verbatim>\<open>total_fights\<close> and one more of exactly one of
  \<^verbatim>\<open>wins\<close>, \<^verbatim>\<open>losses\<close> and \<^verbatim>\<open>draws\<close>, and a participant without a user
  record still has none. When the challenger is also the opponent, that user gets both
  updates: two more \<^verbatim>\<open>total_fights\<close>, and one more win and one more loss, or two
  more draws. The counters of every other user stay as they are. Nothing guards a
  second run for the same fight: it makes the same updates again, so that after two
  runs \<^verbatim>\<open>total_fights\<close> of each participant with a record has grown by two. No
  run makes any counter of any user smaller.
\<close>

theorem finalization_increments_every_run:
  assumes "get_challenge (db s) cid = Some ch"
    and "decide_results (Some ch) ft m1 m2 = Inr (w, r1, r2)"
  shows "(challenger_id ch \<noteq> opponent_id ch \<longrightarrow>
       user_counters (db (end_fight_with_results s cid fid n m1 m2 ft now)) (challenger_id ch) =
         map_option (\<lambda>(k, a, b, c).
            if r1 = WIN then (k + 1, a + 1, b, c)
            else if r2 = WIN then (k + 1, a, b + 1, c)
            else (k + 1, a, b, c + 1)) (user_counters (db s) (challenger_id ch)) \<and>
       user_counters (db (end_fight_with_results s cid fid n m1 m2 ft now)) (opponent_id ch) =
         map_option (\<lambda>(k, a, b, c).
            if r1 = WIN then (k + 1, a, b + 1, c)
            else if r2 = WIN then (k + 1, a + 1, b, c)
            else (k + 1, a, b, c + 1)) (user_counters (db s) (opponent_id ch)) \<and>
       map_option fst
         (user_counters
            (db (end_fight_with_results (end_fight_with_results s cid fid n m1 m2 ft now)
                   cid fid n m1 m2 ft now')) (challenger_id ch)) =
         map_option (\<lambda>(k, a, b, c). k + 2) (user_counters (db s) (challenger_id ch)) \<and>
       map_option fst
         (user_counters
            (db (end_fight_with_results (end_fight_with_results s cid fid n m1 m2 ft now)
                   cid fid n m1 m2 ft now')) (opponent_id ch)) =
         map_option (\<lambda>(k, a, b, c). k + 2) (user_counters (db s) (opponent_id ch))) \<and>
     (challenger_id ch = opponent_id ch \<longrightarrow>
       user_counters (db (end_fight_with_results s cid fid n m1 m2 ft now)) (challenger_id ch) =
         map_option (\<lambda>(k, a, b, c).
            if r1 = WIN \<or> r2 = WIN then (k + 2, a + 1, b + 1, c) else (k + 2, a, b, c + 2))
           (user_counters (db s) (challenger_id ch))) \<and>
     (t \<noteq> challenger_id ch \<and> t \<noteq> opponent_id ch \<longrightarrow>
       user_counters (db (end_fight_with_results s cid fid n m1 m2 ft now)) t
         = user_counters (db s) t) \<and>
     counters_grow (db s) (db (end_fight_with_results s cid fid n m1 m2 ft now))"
proof -
  let ?s' = "end_fight_with_results s cid fid n m1 m2 ft now"
  let ?s'' = "end_fight_with_results ?s' cid fid n m1 m2 ft now'"
  let ?ch' = "ch\<lparr>status := COMPLETED\<rparr>"
  let ?fc = "\<lambda>(k::int, a::int, b::int, c::int).
            if r1 = WIN then (k + 1, a + 1, b, c)
            else if r2 = WIN then (k + 1, a, b + 1, c)
            else (k + 1, a, b, c + 1)"
  let ?fo = "\<lambda>(k::int, a::int, b::int, c::int).
            if r1 = WIN then (k + 1, a, b + 1, c)
            else if r2 = WIN then (k + 1, a + 1, b, c)
            else (k + 1, a, b, c + 1)"
  have run: "user_counters (db (end_fight_with_results s0 cid fid n m1 m2 ft now0)) u =
      user_counters (update_result_stats (db s0) ch0 r1 r2) u"
    if "get_challenge (db s0) cid = Some ch0"
      and "decide_results (Some ch0) ft m1 m2 = Inr (w, r1, r2)" for s0 ch0 now0 u
    using that by (rule end_fight_with_results_users)
  have ch': "get_challenge (db ?s') cid = Some ?ch'"
    using assms by (rule end_fight_with_results_challenge)
  have dec': "decide_results (Some ?ch') ft m1 m2 = Inr (w, r1, r2)"
    using assms(2) by (simp add: decide_results_status)
  have different: "user_counters (db ?s') (challenger_id ch) =
         map_option ?fc (user_counters (db s) (challenger_id ch)) \<and>
       user_counters (db ?s') (opponent_id ch) =
         map_option ?fo (user_counters (db s) (opponent_id ch)) \<and>
       map_option fst (user_counters (db ?s'') (challenger_id ch)) =
         map_option (\<lambda>(k, a, b, c). k + 2) (user_counters (db s) (challenger_id ch)) \<and>
       map_option fst (user_counters (db ?s'') (opponent_id ch)) =
         map_option (\<lambda>(k, a, b, c). k + 2) (user_counters (db s) (opponent_id ch))"
    if neq: "challenger_id ch \<noteq> opponent_id ch"
  proof -
    from neq have neq': "challenger_id ?ch' \<noteq> opponent_id ?ch'" by simp
    have c1: "user_counters (db ?s') (challenger_id ch) =
         map_option ?fc (user_counters (db s) (challenger_id ch))"
      using neq by (simp add: run [OF assms] user_counters_update_result_stats [OF neq])
    have o1: "user_counters (db ?s') (opponent_id ch) =
         map_option ?fo (user_counters (db s) (opponent_id ch))"
      using neq by (simp add: run [OF assms] user_counters_update_result_stats [OF neq])
    have c2: "user_counters (db ?s'') (challenger_id ch) =
         map_option ?fc (user_counters (db ?s') (challenger_id ch))"
      using neq by (simp add: run [OF ch' dec'] user_counters_update_result_stats [OF neq'])
    have o2: "user_counters (db ?s'') (opponent_id ch) =
         map_option ?fo (user_counters (db ?s') (opponent_id ch))"
      using neq by (simp add: run [OF ch' dec'] user_counters_update_result_stats [OF neq'])
    have c3: "map_option fst (user_counters (db ?s'') (challenger_id ch)) =
         map_option (\<lambda>(k, a, b, c). k + 2) (user_counters (db s) (challenger_id ch))"
      unfolding c2 c1
      by (cases "user_counters (db s) (challenger_id ch)") (auto split: prod.splits)
    have o3: "map_option fst (user_counters (db ?s'') (opponent_id ch)) =
         map_option (\<lambda>(k, a, b, c). k + 2) (user_counters (db s) (opponent_id ch))"
      unfolding o2 o1
      by (cases "user_counters (db s) (opponent_id ch)") (auto split: prod.splits)
    from c1 o1 c3 o3 show ?thesis by blast
  qed
  have same: "user_counters (db ?s') (challenger_id ch) =
         map_option (\<lambda>(k, a, b, c).
            if r1 = WIN \<or> r2 = WIN then (k + 2, a + 1, b + 1, c) else (k + 2, a, b, c + 2))
           (user_counters (db s) (challenger_id ch))"
    if "challenger_id ch = opponent_id ch"
    unfolding run [OF assms] by (rule user_counters_update_result_stats_same [OF that])
  have others: "user_counters (db ?s') t = user_counters (db s) t"
    if "t \<noteq> challenger_id ch \<and> t \<noteq> opponent_id ch"
    using that
    by (simp add: run [OF assms] update_result_stats_def user_counters_update_user_stats)
  have grow: "counters_grow (db s) (db ?s')"
    by (rule end_fight_with_results_counters_grow)
  from different same others grow show ?thesis by blast
qed

lemma example_manager_counters:
  "user_counters (db (example_manager st)) 101 = Some (0, 0, 0, 0)"
  "user_counters (db (example_manager st)) 202 = Some (0, 0, 0, 0)"
  by (simp_all add: user_counters_def example_manager_def example_db_def example_user_def)

lemma example_decision:
  "decide_results (Some example_challenge) (Some TIMING)
     [''join_time'' \<mapsto> PyInt 7] [''join_time'' \<mapsto> PyInt 3] = Inr (Some 101, WIN, LOSS)"
  by (simp add: decide_results_timing [of _ 7 _ 3] dict_get_def example_challenge_def)

lemma example_two_runs:
  "user_counters
     (db (end_fight_with_results (example_manager FIGHT_ACTIVE) ''c1'' ''f1'' 10
            [''join_time'' \<mapsto> PyInt 7] [''join_time'' \<mapsto> PyInt 3] (Some TIMING) 5)) 101
     = Some (1, 1, 0, 0)"
  "user_counters
     (db (end_fight_with_results
            (end_fight_with_results (example_manager FIGHT_ACTIVE) ''c1'' ''f1'' 10
               [''join_time'' \<mapsto> PyInt 7] [''join_time'' \<mapsto> PyInt 3] (Some TIMING) 5)
            ''c1'' ''f1'' 10 [''join_time'' \<mapsto> PyInt 7] [''join_time'' \<mapsto> PyInt 3] (Some TIMING) 6))
       101
     = Some (2, 2, 0, 0)"
proof -
  let ?m1 = "[''join_time'' \<mapsto> PyInt 7]" and ?m2 = "[''join_time'' \<mapsto> PyInt 3]"
  let ?s = "example_manager FIGHT_ACTIVE"
  let ?s' = "end_fight_with_results ?s ''c1'' ''f1'' 10 ?m1 ?m2 (Some TIMING) 5"
  let ?ch' = "example_challenge\<lparr>status := COMPLETED\<rparr>"
  have ids: "challenger_id example_challenge = 101" "opponent_id example_challenge = 202"
    by (simp_all add: example_challenge_def)
  have neq: "challenger_id example_challenge \<noteq> opponent_id example_challenge"
    by (simp add: ids)
  have c1: "user_counters (db ?s) (challenger_id example_challenge) = Some (0, 0, 0, 0)"
    and c2: "user_counters (db ?s) (opponent_id example_challenge) = Some (0, 0, 0, 0)"
    by (simp_all add: ids example_manager_counters)
  note first = end_fight_with_results_counters_step
    [OF example_manager_lookup(1) neq example_decision c1 c2, of "''f1''" 10 5]
  from first(1) show one: "user_counters (db ?s') 101 = Some (1, 1, 0, 0)"
    by (simp add: ids)
  from first(2) have two: "user_counters (db ?s') 202 = Some (1, 0, 1, 0)"
    by (simp add: ids)
  have ch': "get_challenge (db ?s') ''c1'' = Some ?ch'"
    using example_manager_lookup(1) example_decision by (rule end_fight_with_results_challenge)
  have neq': "challenger_id ?ch' \<noteq> opponent_id ?ch'"
    by (simp add: ids)
  have dec': "decide_results (Some ?ch') (Some TIMING) ?m1 ?m2 = Inr (Some 101, WIN, LOSS)"
    by (simp add: decide_results_status example_decision)
  have c1': "user_counters (db ?s') (challenger_id ?ch') = Some (1, 1, 0, 0)"
    and c2': "user_counters (db ?s') (opponent_id ?ch') = Some (1, 0, 1, 0)"
    by (simp_all add: ids one two)
  note second = end_fight_with_results_counters_step [OF ch' neq' dec' c1' c2', of "''f1''" 10 6]
  from second(1) show "user_counters
     (db (end_fight_with_results ?s' ''c1'' ''f1'' 10 ?m1 ?m2 (Some TIMING) 6)) 101
     = Some (2, 2, 0, 0)"
    by (simp add: ids)
qed

lemma example_unregistered:
  "get_challenge (db ((example_manager st)\<lparr>db := example_db\<lparr>users := [(101, example_user)]\<rparr>\<rparr>))
     ''c1'' = Some example_challenge"
  "user_counters (db ((example_manager st)\<lparr>db := example_db\<lparr>users := [(101, example_user)]\<rparr>\<rparr>))
     202 = None"
  by (simp_all add: example_db_def get_challenge_def user_counters_def)

text \<open>
  The theorem at the example manager: the challenger (user 101) wins a TIMING contest,
  7 against 3. One run gives the challenger one fight and one win and the opponent
  (user 202) one fight and one loss; after a second run the opponent has two fights.
  With a store in which the opponent has no user record, the run leaves the opponent
  without one.
\<close>

theorem finalization_increments_every_run_witness:
  "get_challenge (db (example_manager FIGHT_ACTIVE)) ''c1'' = Some example_challenge \<and>
   decide_results (Some example_challenge) (Some TIMING)
     [''join_time'' \<mapsto> PyInt 7] [''join_time'' \<mapsto> PyInt 3] = Inr (Some 101, WIN, LOSS) \<and>
   challenger_id example_challenge \<noteq> opponent_id example_challenge \<and>
   user_counters
     (db (end_fight_with_results (example_manager FIGHT_ACTIVE) ''c1'' ''f1'' 10
            [''join_time'' \<mapsto> PyInt 7] [''join_time'' \<mapsto> PyInt 3] (Some TIMING) 5)) 101
     = Some (1, 1, 0, 0) \<and>
   user_counters
     (db (end_fight_with_results (example_manager FIGHT_ACTIVE) ''c1'' ''f1'' 10
            [''join_time'' \<mapsto> PyInt 7] [''join_time'' \<mapsto> PyInt 3] (Some TIMING) 5)) 202
     = Some (1, 0, 1, 0) \<and>
   map_option fst
     (user_counters
        (db (end_fight_with_results
               (end_fight_with_results (example_manager FIGHT_ACTIVE) ''c1'' ''f1'' 10
                  [''join_time'' \<mapsto> PyInt 7] [''join_time'' \<mapsto> PyInt 3] (Some TIMING) 5)
               ''c1'' ''f1'' 10 [''join_time'' \<mapsto> PyInt 7] [''join_time'' \<mapsto> PyInt 3]
               (Some TIMING) 6)) 202) = Some 2 \<and>
   user_counters
     (db (end_fight_with_results
            ((example_manager FIGHT_ACTIVE)\<lparr>db := example_db\<lparr>users := [(101, example_user)]\<rparr>\<rparr>)
            ''c1'' ''f1'' 10 [''join_time'' \<mapsto> PyInt 7] [''join_time'' \<mapsto> PyInt 3]
            (Some TIMING) 5)) 202 = None \<and>
   counters_grow (db (example_manager FIGHT_ACTIVE))
     (db (end_fight_with_results (example_manager FIGHT_ACTIVE) ''c1'' ''f1'' 10
            [''join_time'' \<mapsto> PyInt 7] [''join_time'' \<mapsto> PyInt 3] (Some TIMING) 5))"
proof -
  let ?s = "example_manager FIGHT_ACTIVE"
  let ?u = "(example_manager FIGHT_ACTIVE)\<lparr>db := example_db\<lparr>users := [(101, example_user)]\<rparr>\<rparr>"
  let ?m1 = "[''join_time'' \<mapsto> PyInt 7]" and ?m2 = "[''join_time'' \<mapsto> PyInt 3]"
  have ids: "challenger_id example_challenge = 101" "opponent_id example_challenge = 202"
    by (simp_all add: example_challenge_def)
  have neq: "challenger_id example_challenge \<noteq> opponent_id example_challenge"
    by (simp add: ids)
  note inst = finalization_increments_every_run [where s = ?s and cid = "''c1''"
      and ch = example_challenge and ft = "Some TIMING" and ?m1.0 = ?m1 and ?m2.0 = ?m2
      and w = "Some 101" and ?r1.0 = WIN and ?r2.0 = LOSS and fid = "''f1''" and n = 10
      and now = 5 and now' = 6 and t = 0,
      OF example_manager_lookup(1) example_decision]
  note inst' = finalization_increments_every_run [where s = ?u and cid = "''c1''"
      and ch = example_challenge and ft = "Some TIMING" and ?m1.0 = ?m1 and ?m2.0 = ?m2
      and w = "Some 101" and ?r1.0 = WIN and ?r2.0 = LOSS and fid = "''f1''" and n = 10
      and now = 5 and now' = 6 and t = 0,
      OF example_unregistered(1) example_decision]
  note first = inst [THEN conjunct1, THEN mp, OF neq]
  note first' = inst' [THEN conjunct1, THEN mp, OF neq]
  have a: "user_counters (db (end_fight_with_results ?s ''c1'' ''f1'' 10 ?m1 ?m2 (Some TIMING) 5))
      101 = Some (1, 1, 0, 0)"
    using first [THEN conjunct1] by (simp add: ids example_manager_counters)
  have b: "user_counters (db (end_fight_with_results ?s ''c1'' ''f1'' 10 ?m1 ?m2 (Some TIMING) 5))
      202 = Some (1, 0, 1, 0)"
    using first [THEN conjunct2, THEN conjunct1] by (simp add: ids example_manager_counters)
  have c: "map_option fst
     (user_counters
        (db (end_fight_with_results
               (end_fight_with_results ?s ''c1'' ''f1'' 10 ?m1 ?m2 (Some TIMING) 5)
               ''c1'' ''f1'' 10 ?m1 ?m2 (Some TIMING) 6)) 202) = Some 2"
    using first [THEN conjunct2, THEN conjunct2, THEN conjunct2]
    by (simp add: ids example_manager_counters)
  have d: "user_counters (db (end_fight_with_results ?u ''c1'' ''f1'' 10 ?m1 ?m2 (Some TIMING) 5))
      202 = None"
    using first' [THEN conjunct2, THEN conjunct1] example_unregistered(2) [of FIGHT_ACTIVE]
    by (simp add: ids)
  have e: "counters_grow (db ?s)
     (db (end_fight_with_results ?s ''c1'' ''f1'' 10 ?m1 ?m2 (Some TIMING) 5))"
    using inst by blast
  from example_manager_lookup(1) [of FIGHT_ACTIVE] example_decision neq a b c d e
  show ?thesis by blast
qed

text \<open>
  Claim C7 as stated fails. The finalization logic run twice for the same fight
  increments the statistics twice: the challenger's counters
  (\<^verbatim>\<open>total_fights\<close>, \<^verbatim>\<open>wins\<close>, \<^verbatim>\<open>losses\<close>, \<^verbatim>\<open>draws\<close>) go from (0, 0, 0, 0) to
  (1, 1, 0, 0) and then to (2, 2, 0, 0).
\<close>

theorem double_finalization_counterexample:
  "user_counters (db (example_manager FIGHT_ACTIVE)) 101 = Some (0, 0, 0, 0) \<and>
   user_counters
     (db (end_fight_with_results (example_manager FIGHT_ACTIVE) ''c1'' ''f1'' 10
            [''join_time'' \<mapsto> PyInt 7] [''join_time'' \<mapsto> PyInt 3] (Some TIMING) 5)) 101
     = Some (1, 1, 0, 0) \<and>
   user_counters
     (db (end_fight_with_results
            (end_fight_with_results (example_manager FIGHT_ACTIVE) ''c1'' ''f1'' 10
               [''join_time'' \<mapsto> PyInt 7] [''join_time'' \<mapsto> PyInt 3] (Some TIMING) 5)
            ''c1'' ''f1'' 10 [''join_time'' \<mapsto> PyInt 7] [''join_time'' \<mapsto> PyInt 3] (Some TIMING) 6))
       101
     = Some (2, 2, 0, 0)"
  using example_manager_counters(1) [of FIGHT_ACTIVE] example_two_runs
  by simp

section \<open>The sweep over the table of active challenges\<close>

lemma expire_old_entry:
  assumes "active_challenges s cid = Some m"
    and "get_time_in_state m now > challenge_timeout cfg * 3"
  shows "active_challenges (snd (expire_old_challenges cfg s now)) cid = None"
    and "discarded (snd (expire_old_challenges cfg s now)) cid =
       Some (snd (transition_to m EXPIRED now))"
  using assms
  by (simp_all add: expire_old_challenges_def Let_def split: prod.splits)

lemma expire_young_entry:
  assumes "active_challenges s cid = Some m"
    and "\<not> get_time_in_state m now > challenge_timeout cfg * 3"
  shows "active_challenges (snd (expire_old_challenges cfg s now)) cid = Some m"
  using assms
  by (simp add: expire_old_challenges_def Let_def split: prod.splits)

lemma transition_to_expired:
  "current_state (snd (transition_to m EXPIRED now)) =
     (if current_state m \<in> {SENT, PARTICIPANTS_JOINING} then EXPIRED else current_state m)"
  by (cases "current_state m") (simp_all add: transition_to_def can_transition_to_def)

lemma transition_to_expired_rejected:
  "current_state m \<notin> {SENT, PARTICIPANTS_JOINING} \<Longrightarrow> snd (transition_to m EXPIRED now) = m"
  by (cases "current_state m") (simp_all add: transition_to_def can_transition_to_def)



text \<open>
  What the sweep does with an entry whose time in its current state
  (\<^verbatim>\<open>get_time_in_state\<close>, in whole seconds) exceeds three timeouts: it removes the
  entry whatever the state of its machine, and the call of
  \<^verbatim>\<open>transition_to(EXPIRED)\<close> before the removal takes effect exactly from SENT and
  from PARTICIPANTS_JOINING, the two states with an edge to EXPIRED; from every other
  state it is rejected and the machine is discarded as it was.
\<close>

lemma expire_old_challenges_effect:
  assumes "active_challenges s cid = Some m"
    and "get_time_in_state m now > challenge_timeout cfg * 3"
  shows "active_challenges (snd (expire_old_challenges cfg s now)) cid = None"
    and "map_option current_state (discarded (snd (expire_old_challenges cfg s now)) cid) =
      Some (if current_state m \<in> {SENT, PARTICIPANTS_JOINING} then EXPIRED else current_state m)"
    and "current_state m \<notin> {SENT, PARTICIPANTS_JOINING} \<Longrightarrow>
       discarded (snd (expire_old_challenges cfg s now)) cid = Some m"
proof -
  show "active_challenges (snd (expire_old_challenges cfg s now)) cid = None"
    using assms by (rule expire_old_entry(1))
  show "map_option current_state (discarded (snd (expire_old_challenges cfg s now)) cid) =
      Some (if current_state m \<in> {SENT, PARTICIPANTS_JOINING} then EXPIRED else current_state m)"
    using expire_old_entry(2) [OF assms] transition_to_expired [of m now] by simp
  assume "current_state m \<notin> {SENT, PARTICIPANTS_JOINING}"
  then show "discarded (snd (expire_old_challenges cfg s now)) cid = Some m"
    using expire_old_entry(2) [OF assms] by (simp add: transition_to_expired_rejected)
qed


section \<open>The no-show path\<close>

lemma end_fight_no_show_effect:
  "db (end_fight_no_show s cid fid now) =
     update_challenge_status (finish_fight (db s) fid None NO_SHOW NO_SHOW now) cid COMPLETED"
  "calls (end_fight_no_show s cid fid now) = calls s"
  "active_challenges (end_fight_no_show s cid fid now) cid = None"
  by (simp_all add: end_fight_no_show_def Let_def transition_and_delete_fields
      transition_and_delete_table)

lemma end_fight_no_show_discarded:
  "active_challenges s cid = Some m \<Longrightarrow>
     discarded (end_fight_no_show s cid fid now) cid =
       Some (snd (transition_to m FIGHT_FINISHED now))"
  by (simp add: end_fight_no_show_def Let_def transition_and_delete_discarded)

lemma monitor_fight_no_show:
  assumes "get_challenge (db s) cid = Some ch"
    and "active_challenges s cid = Some m"
    and "\<not> cancelled_in_join_wait env"
    and "\<not> participants_joined env"
  shows "monitor_fight cfg env s cid fid = (Returned, end_fight_no_show s cid fid (time_active env))"
  using assms by (simp add: monitor_fight_def)

text \<open>
  Claim C6 at the example manager, whose challenge is in PARTICIPANTS_JOINING, when the
  participants have not joined after the wait. The routine returns; the fight has both
  results NO_SHOW and no winner; the challenge is COMPLETED; the entry is removed from
  the table; no call is made to a collaborator. The machine is discarded in
  PARTICIPANTS_JOINING: the table has no edge from there to FIGHT_FINISHED, so the
  transition is rejected. The persisted duration is 0, not the 30 seconds of the wait.
\<close>

theorem no_show_leaves_machine_joining:
  "fst (monitor_fight example_config example_no_show_env
          (example_manager PARTICIPANTS_JOINING) ''c1'' ''f1'') = Returned \<and>
   persisted_outcome
     (db (snd (monitor_fight example_config example_no_show_env
                 (example_manager PARTICIPANTS_JOINING) ''c1'' ''f1''))) ''f1''
     = Some (None, NO_SHOW, NO_SHOW, 0, []) \<and>
   map_option status
     (get_challenge
        (db (snd (monitor_fight example_config example_no_show_env
                    (example_manager PARTICIPANTS_JOINING) ''c1'' ''f1''))) ''c1'')
     = Some COMPLETED \<and>
   active_challenges
     (snd (monitor_fight example_config example_no_show_env
             (example_manager PARTICIPANTS_JOINING) ''c1'' ''f1'')) ''c1'' = None \<and>
   calls (snd (monitor_fight example_config example_no_show_env
                 (example_manager PARTICIPANTS_JOINING) ''c1'' ''f1'')) = [] \<and>
   map_option current_state
     (discarded (snd (monitor_fight example_config example_no_show_env
                        (example_manager PARTICIPANTS_JOINING) ''c1'' ''f1'')) ''c1'')
     = Some PARTICIPANTS_JOINING \<and>
   \<not> fst (transition_to (init_machine PARTICIPANTS_JOINING 0) FIGHT_FINISHED 30000000) \<and>
   challenge_timeout example_config = 30"
proof -
  let ?s = "example_manager PARTICIPANTS_JOINING"
  have entry: "active_challenges ?s ''c1'' = Some (init_machine PARTICIPANTS_JOINING 0)"
    by (simp add: example_manager_def)
  have run: "monitor_fight example_config example_no_show_env ?s ''c1'' ''f1'' =
      (Returned, end_fight_no_show ?s ''c1'' ''f1'' 30000000)"
    using monitor_fight_no_show [OF example_manager_lookup(1) entry, of example_no_show_env
        example_config "''f1''"]
    by (simp add: example_no_show_env_def)
  have rejected: "transition_to (init_machine PARTICIPANTS_JOINING 0) FIGHT_FINISHED 30000000 =
      (False, init_machine PARTICIPANTS_JOINING 0)"
    by (simp add: transition_to_def can_transition_to_def init_machine_def)
  have outcome: "persisted_outcome (db (end_fight_no_show ?s ''c1'' ''f1'' 30000000)) ''f1''
      = Some (None, NO_SHOW, NO_SHOW, 0, [])"
    by (simp add: end_fight_no_show_effect persisted_outcome_def get_fight_def
        update_challenge_status_collections finish_fight_def map_of_update_one
        example_manager_def example_db_def example_fight_def)
  have completed: "map_option status
      (get_challenge (db (end_fight_no_show ?s ''c1'' ''f1'' 30000000)) ''c1'') = Some COMPLETED"
    by (simp add: end_fight_no_show_effect get_challenge_def update_challenge_status_def
        finish_fight_collections map_of_update_one example_manager_def example_db_def)
  have removed: "active_challenges (end_fight_no_show ?s ''c1'' ''f1'' 30000000) ''c1'' = None"
    by (simp add: end_fight_no_show_effect)
  have quiet: "calls (end_fight_no_show ?s ''c1'' ''f1'' 30000000) = []"
    by (simp add: end_fight_no_show_effect example_manager_def)
  have left: "map_option current_state
      (discarded (end_fight_no_show ?s ''c1'' ''f1'' 30000000) ''c1'') = Some PARTICIPANTS_JOINING"
    unfolding end_fight_no_show_discarded [OF entry] rejected
    by (simp add: init_machine_def)
  have timeout: "challenge_timeout example_config = 30"
    by (simp add: example_config_def)
  from run rejected outcome completed removed quiet left timeout show ?thesis
    by simp
qed

section \<open>Cancellation during the sampling loop\<close>

lemma cancel_challenge_fields:
  "calls (snd (cancel_challenge s cid now)) = calls s"
  "active_recordings (snd (cancel_challenge s cid now)) = active_recordings s"
  by (simp_all add: cancel_challenge_def Let_def transition_and_delete_fields)

lemma sampling_loop_cancel_at:
  assumes "0 \<le> monitoring_interval cfg"
    and "n + int (length cms) * monitoring_interval cfg < max_fight_duration cfg"
  shows "\<exists>d'. sampling_loop cfg ch fid (map (\<lambda>cm. Tick cm True) cms @ Cancel # rest) n m1 m2 d
     = Loop_cancelled d'"
  using assms
proof (induction cms arbitrary: n m1 m2 d)
  case Nil
  then show ?case by simp
next
  case (Cons cm cms)
  define i where "i = monitoring_interval cfg"
  define b where "b = int (length cms) * i"
  have nonneg: "0 \<le> b" "0 \<le> i"
    using Cons.prems(1) by (simp_all add: b_def i_def)
  have "int (length (cm # cms)) * i = i + b"
    by (simp add: b_def algebra_simps)
  with Cons.prems(2) have bound: "n + (i + b) < max_fight_duration cfg"
    by (simp add: i_def)
  from bound nonneg have running: "n < max_fight_duration cfg"
    by linarith
  from bound have later: "(n + monitoring_interval cfg) + int (length cms) * monitoring_interval cfg
      < max_fight_duration cfg"
    by (simp add: b_def i_def)
  show ?case
  proof (cases cm)
    case None
    with Cons.IH [OF Cons.prems(1) later, of m1 m2 d] running show ?thesis
      by simp
  next
    case (Some c)
    obtain c1 c2 where c: "c = (c1, c2)" by (cases c)
    from Cons.IH [OF Cons.prems(1) later, of c1 c2
        "update_fight_metrics (update_fight_metrics d fid (challenger_id ch) c1)
           fid (opponent_id ch) c2"] running Some c
    show ?thesis by simp
  qed
qed

lemma monitor_fight_cancelled:
  assumes "fst (monitor_fight cfg env s cid fid) = Cancelled_at_await"
  shows "filter is_release (calls (snd (monitor_fight cfg env s cid fid)))
       = filter is_release (calls s)"
    and "\<not> cancelled_in_join_wait env \<longrightarrow>
       fid \<in> active_recordings (snd (monitor_fight cfg env s cid fid))"
proof -
  from assms obtain challenge where ch: "get_challenge (db s) cid = Some challenge"
    by (cases "get_challenge (db s) cid") (simp_all add: monitor_fight_def)
  from assms ch obtain state_machine where sm: "active_challenges s cid = Some state_machine"
    by (cases "active_challenges s cid") (simp_all add: monitor_fight_def)
  have "filter is_release (calls (snd (monitor_fight cfg env s cid fid)))
       = filter is_release (calls s)
     \<and> (\<not> cancelled_in_join_wait env \<longrightarrow>
       fid \<in> active_recordings (snd (monitor_fight cfg env s cid fid)))"
  proof (cases "cancelled_in_join_wait env")
    case True
    with ch sm show ?thesis by (simp add: monitor_fight_def)
  next
    case False
    with assms ch sm have joined: "participants_joined env"
      by (auto simp: monitor_fight_def split: if_splits)
    define r where "r = sampling_loop cfg challenge fid (ticks env) 0
        initial_metrics initial_metrics (db s)"
    show ?thesis
    proof (cases r)
      case (Loop_exit n m1 m2 d)
      with assms ch sm False joined show ?thesis
        by (simp add: monitor_fight_def r_def [symmetric] start_recording_fields Let_def)
    next
      case (Loop_cancelled d)
      with ch sm False joined show ?thesis
        by (simp add: monitor_fight_def r_def [symmetric] start_recording_def Let_def)
    next
      case (Loop_unanswered d)
      with assms ch sm False joined show ?thesis
        by (simp add: monitor_fight_def r_def [symmetric] start_recording_fields Let_def)
    qed
  qed
  then show "filter is_release (calls (snd (monitor_fight cfg env s cid fid)))
       = filter is_release (calls s)"
    and "\<not> cancelled_in_join_wait env \<longrightarrow>
       fid \<in> active_recordings (snd (monitor_fight cfg env s cid fid))"
    by simp_all
qed

lemma monitor_fight_cancel_at:
  assumes "get_challenge (db s) cid = Some ch"
    and "active_challenges s cid = Some m"
    and "\<not> cancelled_in_join_wait env"
    and "participants_joined env"
    and "ticks env = map (\<lambda>cm. Tick cm True) cms @ [Cancel]"
    and "0 \<le> monitoring_interval cfg"
    and "int (length cms) * monitoring_interval cfg < max_fight_duration cfg"
  shows "fst (monitor_fight cfg env s cid fid) = Cancelled_at_await"
proof -
  obtain d' where
    "sampling_loop cfg ch fid (ticks env) 0 initial_metrics initial_metrics (db s)
      = Loop_cancelled d'"
    using sampling_loop_cancel_at [of cfg 0 cms ch fid "[]" initial_metrics initial_metrics "db s"]
      assms(5-7)
    by auto
  with assms(1-4) show ?thesis
    by (simp add: monitor_fight_def start_recording_fields Let_def)
qed

lemma monitor_fight_finished:
  assumes "get_challenge (db s) cid = Some ch"
    and "active_challenges s cid = Some m"
    and "\<not> cancelled_in_join_wait env"
    and "participants_joined env"
    and "sampling_loop cfg ch fid (ticks env) 0 initial_metrics initial_metrics (db s)
       = Loop_exit n m1 m2 d"
    and "decide_results (Some ch) (Challenge.fight_type ch) m1 m2 = Inr res"
  shows "fst (monitor_fight cfg env s cid fid) = Returned"
    and "calls (snd (monitor_fight cfg env s cid fid)) =
       calls s @ [StartRecording fid (Challenge.fight_type ch = Some VOLUME),
                  StopRecording fid, CleanupFight (challenger_id ch) (opponent_id ch)]"
proof -
  define s2 where "s2 = (start_recording
      (s\<lparr>active_challenges := (active_challenges s)
          (cid \<mapsto> snd (transition_to m FIGHT_ACTIVE (time_active env)))\<rparr>)
      fid (Challenge.fight_type ch = Some VOLUME))\<lparr>db := d\<rparr>"
  obtain w r1 r2 where res: "res = (w, r1, r2)" by (cases res)
  have run: "monitor_fight cfg env s cid fid =
      (Returned, end_fight_with_results s2 cid fid n m1 m2 (Challenge.fight_type ch) (time_end env))"
    using assms(1-5) by (simp add: monitor_fight_def start_recording_fields Let_def s2_def)
  have "challenges d = challenges (db s)"
    using sampling_loop_outcome [of cfg ch fid "ticks env" 0 initial_metrics initial_metrics
        "db s" n m1 m2 d fid] assms(5)
    by simp
  with assms(1) have ch2: "get_challenge (db s2) cid = Some ch"
    by (simp add: s2_def get_challenge_def)
  have calls2: "calls s2 = calls s @ [StartRecording fid (Challenge.fight_type ch = Some VOLUME)]"
    by (simp add: s2_def start_recording_def)
  from run show "fst (monitor_fight cfg env s cid fid) = Returned"
    by simp
  from run calls2 assms(6) res
  show "calls (snd (monitor_fight cfg env s cid fid)) =
       calls s @ [StartRecording fid (Challenge.fight_type ch = Some VOLUME),
                  StopRecording fid, CleanupFight (challenger_id ch) (opponent_id ch)]"
    by (simp add: end_fight_with_results_success(2) [OF ch2])
qed

text \<open>
  Claim C9, as the code has it. A run of the monitoring routine that a cancellation
  ends makes no call that stops the recording and no call that releases userbots, and
  \<^verbatim>\<open>cancel_challenge\<close> makes none either; a recording that the run started stays
  in the table of active recordings. A cancellation at the sleep of any pass of the
  loop, after any answers that kept the loop running, ends the run in this way. Only a
  run whose loop exits and whose finalization raises nothing makes these calls: one
  \<^verbatim>\<open>stop_recording\<close> and one \<^verbatim>\<open>cleanup_fight\<close>.
\<close>

theorem cancellation_makes_no_release_call:
  "(fst (monitor_fight cfg env s cid fid) = Cancelled_at_await \<longrightarrow>
      filter is_release
        (calls (snd (cancel_challenge (snd (monitor_fight cfg env s cid fid)) cid now)))
        = filter is_release (calls s) \<and>
      (\<not> cancelled_in_join_wait env \<longrightarrow>
         fid \<in> active_recordings
           (snd (cancel_challenge (snd (monitor_fight cfg env s cid fid)) cid now)))) \<and>
   (get_challenge (db s) cid = Some ch \<and> active_challenges s cid = Some m \<and>
    \<not> cancelled_in_join_wait env \<and> participants_joined env \<and>
    ticks env = map (\<lambda>cm. Tick cm True) cms @ [Cancel] \<and>
    0 \<le> monitoring_interval cfg \<and>
    int (length cms) * monitoring_interval cfg < max_fight_duration cfg \<longrightarrow>
      fst (monitor_fight cfg env s cid fid) = Cancelled_at_await) \<and>
   (get_challenge (db s) cid = Some ch \<and> active_challenges s cid = Some m \<and>
    \<not> cancelled_in_join_wait env \<and> participants_joined env \<and>
    sampling_loop cfg ch fid (ticks env) 0 initial_metrics initial_metrics (db s)
      = Loop_exit n m1 m2 d \<and>
    decide_results (Some ch) (Challenge.fight_type ch) m1 m2 = Inr res \<longrightarrow>
      fst (monitor_fight cfg env s cid fid) = Returned \<and>
      filter is_release (calls (snd (monitor_fight cfg env s cid fid)))
        = filter is_release (calls s)
          @ [StopRecording fid, CleanupFight (challenger_id ch) (opponent_id ch)])"
proof (intro conjI impI)
  assume cancelled: "fst (monitor_fight cfg env s cid fid) = Cancelled_at_await"
  from monitor_fight_cancelled(1) [OF cancelled]
  show "filter is_release
        (calls (snd (cancel_challenge (snd (monitor_fight cfg env s cid fid)) cid now)))
        = filter is_release (calls s)"
    by (simp add: cancel_challenge_fields)
  assume "\<not> cancelled_in_join_wait env"
  with monitor_fight_cancelled(2) [OF cancelled]
  show "fid \<in> active_recordings
           (snd (cancel_challenge (snd (monitor_fight cfg env s cid fid)) cid now))"
    by (simp add: cancel_challenge_fields)
next
  assume "get_challenge (db s) cid = Some ch \<and> active_challenges s cid = Some m \<and>
    \<not> cancelled_in_join_wait env \<and> participants_joined env \<and>
    ticks env = map (\<lambda>cm. Tick cm True) cms @ [Cancel] \<and>
    0 \<le> monitoring_interval cfg \<and>
    int (length cms) * monitoring_interval cfg < max_fight_duration cfg"
  then show "fst (monitor_fight cfg env s cid fid) = Cancelled_at_await"
    using monitor_fight_cancel_at [of s cid ch m env cms cfg fid] by blast
next
  assume finished: "get_challenge (db s) cid = Some ch \<and> active_challenges s cid = Some m \<and>
    \<not> cancelled_in_join_wait env \<and> participants_joined env \<and>
    sampling_loop cfg ch fid (ticks env) 0 initial_metrics initial_metrics (db s)
      = Loop_exit n m1 m2 d \<and>
    decide_results (Some ch) (Challenge.fight_type ch) m1 m2 = Inr res"
  then show "fst (monitor_fight cfg env s cid fid) = Returned"
    using monitor_fight_finished(1) [of s cid ch m env cfg fid n m1 m2 d res] by blast
  from finished have "calls (snd (monitor_fight cfg env s cid fid)) =
       calls s @ [StartRecording fid (Challenge.fight_type ch = Some VOLUME),
                  StopRecording fid, CleanupFight (challenger_id ch) (opponent_id ch)]"
    using monitor_fight_finished(2) [of s cid ch m env cfg fid n m1 m2 d res] by blast
  then show "filter is_release (calls (snd (monitor_fight cfg env s cid fid)))
        = filter is_release (calls s)
          @ [StopRecording fid, CleanupFight (challenger_id ch) (opponent_id ch)]"
    by simp
qed

lemma example_cancel_run:
  "monitor_fight example_config example_cancel_env (example_manager PARTICIPANTS_JOINING)
     ''c1'' ''f1'' =
   (Cancelled_at_await,
    start_recording
      ((example_manager PARTICIPANTS_JOINING)
         \<lparr>active_challenges := (active_challenges (example_manager PARTICIPANTS_JOINING))
            (''c1'' \<mapsto> snd (transition_to (init_machine PARTICIPANTS_JOINING 0)
                              FIGHT_ACTIVE 30000000))\<rparr>)
      ''f1'' False)"
proof -
  have entry: "active_challenges (example_manager PARTICIPANTS_JOINING) ''c1'' =
      Some (init_machine PARTICIPANTS_JOINING 0)"
    by (simp add: example_manager_def)
  have timing: "Challenge.fight_type example_challenge \<noteq> Some VOLUME"
    by (simp add: example_challenge_def)
  show ?thesis
    by (simp add: monitor_fight_def example_cancel_env_def start_recording_fields Let_def
        example_manager_lookup entry timing example_config_def)
qed

text \<open>
  The theorem at the example manager, whose challenge is in PARTICIPANTS_JOINING, with
  the task cancelled in the third pass of the loop: the run ends by the cancellation,
  no call stops the recording or releases userbots, and the recording of fight \<open>f1\<close>
  stays active after \<^verbatim>\<open>cancel_challenge\<close>.
\<close>

theorem cancellation_makes_no_release_call_witness:
  "get_challenge (db (example_manager PARTICIPANTS_JOINING)) ''c1'' = Some example_challenge \<and>
   active_challenges (example_manager PARTICIPANTS_JOINING) ''c1''
     = Some (init_machine PARTICIPANTS_JOINING 0) \<and>
   ticks example_cancel_env = map (\<lambda>cm. Tick cm True) [None, None] @ [Cancel] \<and>
   fst (monitor_fight example_config example_cancel_env (example_manager PARTICIPANTS_JOINING)
          ''c1'' ''f1'') = Cancelled_at_await \<and>
   filter is_release
     (calls (snd (cancel_challenge
        (snd (monitor_fight example_config example_cancel_env
                (example_manager PARTICIPANTS_JOINING) ''c1'' ''f1'')) ''c1'' 46000000))) = [] \<and>
   ''f1'' \<in> active_recordings
     (snd (cancel_challenge
        (snd (monitor_fight example_config example_cancel_env
                (example_manager PARTICIPANTS_JOINING) ''c1'' ''f1'')) ''c1'' 46000000))"
proof -
  let ?s = "example_manager PARTICIPANTS_JOINING"
  have entry: "active_challenges ?s ''c1'' = Some (init_machine PARTICIPANTS_JOINING 0)"
    by (simp add: example_manager_def)
  have env: "\<not> cancelled_in_join_wait example_cancel_env"
    "participants_joined example_cancel_env"
    "ticks example_cancel_env = map (\<lambda>cm. Tick cm True) [None, None] @ [Cancel]"
    by (simp_all add: example_cancel_env_def)
  have cfg: "0 \<le> monitoring_interval example_config"
    "int (length [None :: (metrics \<times> metrics) option, None]) * monitoring_interval example_config
       < max_fight_duration example_config"
    by (simp_all add: example_config_def)
  have quiet: "filter is_release (calls ?s) = []"
    by (simp add: example_manager_def)
  note inst = cancellation_makes_no_release_call [of example_config example_cancel_env ?s
      "''c1''" "''f1''" 46000000 example_challenge "init_machine PARTICIPANTS_JOINING 0"
      "[None, None]"]
  from inst example_manager_lookup(1) [of PARTICIPANTS_JOINING] entry env cfg
  have cancelled: "fst (monitor_fight example_config example_cancel_env ?s ''c1'' ''f1'')
      = Cancelled_at_await"
    by blast
  with inst env(1) quiet
  have "filter is_release
     (calls (snd (cancel_challenge
        (snd (monitor_fight example_config example_cancel_env ?s ''c1'' ''f1'')) ''c1''
        46000000))) = []"
    and "''f1'' \<in> active_recordings
     (snd (cancel_challenge
        (snd (monitor_fight example_config example_cancel_env ?s ''c1'' ''f1'')) ''c1''
        46000000))"
    by simp_all
  with example_manager_lookup(1) [of PARTICIPANTS_JOINING] entry env(3) cancelled
  show ?thesis by blast
qed

text \<open>
  Claim C9 as stated fails. With the task cancelled in the third pass of the sampling
  loop, the only call made to a collaborator by the routine and by
  \<^verbatim>\<open>cancel_challenge\<close> is the one that started the recording: there is no
  \<^verbatim>\<open>stop_recording\<close> call and no \<^verbatim>\<open>cleanup_fight\<close> call, and the recording
  stays active.
\<close>

theorem cancelled_run_counterexample:
  "fst (monitor_fight example_config example_cancel_env (example_manager PARTICIPANTS_JOINING)
          ''c1'' ''f1'') = Cancelled_at_await \<and>
   calls (snd (cancel_challenge
      (snd (monitor_fight example_config example_cancel_env
              (example_manager PARTICIPANTS_JOINING) ''c1'' ''f1'')) ''c1'' 46000000))
     = [StartRecording ''f1'' False] \<and>
   ''f1'' \<in> active_recordings
     (snd (cancel_challenge
        (snd (monitor_fight example_config example_cancel_env
                (example_manager PARTICIPANTS_JOINING) ''c1'' ''f1'')) ''c1'' 46000000))"
  unfolding example_cancel_run
  by (simp add: cancel_challenge_fields start_recording_def example_manager_def)

end
